theory Spec2Isabelle
  imports Complex_Main "HOL-Library.Char_ord" "HOL-Library.List_Lexorder"
    "HOL-Library.Option_ord"
begin

section \<open>Scene ingestion of the 4D Gaussian splatting pipeline (scene/dataset\_readers.py)\<close>

text \<open>
  The theory embeds the scene readers of \<^verbatim>\<open>src/scene/dataset_readers.py\<close>.
  Python exceptions are values of the type \<open>error\<close>; a function that may raise returns
  \<open>error + 'a\<close>, with \<open>Inl\<close> for the exception. Numbers that are floats in the source are
  reals here; the one place where the source narrows to 32-bit floats on purpose (the
  vertex file written by \<open>storePly\<close>) applies a rounding function that is a parameter of
  the model, for which \<open>binary32\<close> below is the cast itself. What the source reads from disk or obtains from modules that are not part
  of the sources at hand (the COLMAP parsers, the image library, the projection helpers)
  is a parameter of the function that uses it.
\<close>

subsection \<open>Exceptions\<close>

datatype error =
    ZeroDivisionError
  | ValueError
  | KeyError
  | IndexError
  | AssertionError
  | FileNotFoundError
  | LinAlgError
  | PlyParseError
  | NotImplementedError
  | AttributeError

text \<open>Sequencing of two steps, the first of which may raise.\<close>

fun and_then :: "error + 'a \<Rightarrow> ('a \<Rightarrow> error + 'b) \<Rightarrow> error + 'b" where
  "and_then (Inl e) f = Inl e"
| "and_then (Inr x) f = f x"

text \<open>A loop body run over a list in order; the first exception ends the loop.\<close>

fun map_result :: "('a \<Rightarrow> error + 'b) \<Rightarrow> 'a list \<Rightarrow> error + 'b list" where
  "map_result f [] = Inr []"
| "map_result f (x # xs) =
     and_then (f x) (\<lambda>y. and_then (map_result f xs) (\<lambda>ys. Inr (y # ys)))"

subsection \<open>Vectors and matrices\<close>

type_synonym vec3 = "real \<times> real \<times> real"

text \<open>A 3\<times>3 matrix is the triple of its rows.\<close>

type_synonym mat3 = "vec3 \<times> vec3 \<times> vec3"

text \<open>
  A 4\<times>4 homogeneous transform whose last row is \<open>(0, 0, 0, 1)\<close>: the 3\<times>3 block and the
  translation column.
\<close>

type_synonym affine = "mat3 \<times> vec3"

definition vzero :: vec3 where
  "vzero = (0, 0, 0)"

fun vadd :: "vec3 \<Rightarrow> vec3 \<Rightarrow> vec3" where
  "vadd (a, b, c) (x, y, z) = (a + x, b + y, c + z)"

fun vsub :: "vec3 \<Rightarrow> vec3 \<Rightarrow> vec3" where
  "vsub (a, b, c) (x, y, z) = (a - x, b - y, c - z)"

fun vscale :: "real \<Rightarrow> vec3 \<Rightarrow> vec3" where
  "vscale k (x, y, z) = (k * x, k * y, k * z)"

fun vneg :: "vec3 \<Rightarrow> vec3" where
  "vneg (x, y, z) = (- x, - y, - z)"

fun vdot :: "vec3 \<Rightarrow> vec3 \<Rightarrow> real" where
  "vdot (a, b, c) (x, y, z) = a * x + b * y + c * z"

text \<open>\<^verbatim>\<open>np.linalg.norm\<close> of a 3-vector.\<close>

definition vnorm :: "vec3 \<Rightarrow> real" where
  "vnorm v = sqrt (vdot v v)"

fun mat_vec :: "mat3 \<Rightarrow> vec3 \<Rightarrow> vec3" where
  "mat_vec (r1, r2, r3) v = (vdot r1 v, vdot r2 v, vdot r3 v)"

fun transpose3 :: "mat3 \<Rightarrow> mat3" where
  "transpose3 ((a, b, c), (d, e, f), (g, h, i)) = ((a, d, g), (b, e, h), (c, f, i))"

fun mat_mul :: "mat3 \<Rightarrow> mat3 \<Rightarrow> mat3" where
  "mat_mul (r1, r2, r3) B =
     (let Bt = transpose3 B
      in (mat_vec Bt r1, mat_vec Bt r2, mat_vec Bt r3))"

definition mat_id :: mat3 where
  "mat_id = ((1, 0, 0), (0, 1, 0), (0, 0, 1))"

fun det3 :: "mat3 \<Rightarrow> real" where
  "det3 ((a, b, c), (d, e, f), (g, h, i)) =
     a * (e * i - f * h) - b * (d * i - f * g) + c * (d * h - e * g)"

text \<open>The inverse of a 3\<times>3 matrix with non-zero determinant (adjugate over determinant).\<close>

fun inv3 :: "mat3 \<Rightarrow> mat3" where
  "inv3 ((a, b, c), (d, e, f), (g, h, i)) =
     (let dt = det3 ((a, b, c), (d, e, f), (g, h, i))
      in (((e * i - f * h) / dt, (c * h - b * i) / dt, (b * f - c * e) / dt),
          ((f * g - d * i) / dt, (a * i - c * g) / dt, (c * d - a * f) / dt),
          ((d * h - e * g) / dt, (b * g - a * h) / dt, (a * e - b * d) / dt)))"

text \<open>
  \<^verbatim>\<open>np.linalg.inv\<close> on a homogeneous transform: the inverse of \<open>[A t; 0 1]\<close> is
  \<open>[A\<inverse>  -A\<inverse>t; 0 1]\<close>; a singular matrix raises \<open>LinAlgError\<close>.
\<close>

fun linalg_inv :: "affine \<Rightarrow> error + affine" where
  "linalg_inv (A, t) =
     (if det3 A = 0 then Inl LinAlgError
      else Inr (inv3 A, vneg (mat_vec (inv3 A) t)))"

subsection \<open>The data model\<close>

text \<open>
  An image as far as the readers look at it: its pixel size (\<open>image.size\<close> is
  \<open>(width, height)\<close>) and its alpha channel, \<open>height\<close> rows of \<open>width\<close> bytes. The colour
  channels are not modelled.
\<close>

record image =
  size_w :: nat
  size_h :: nat
  alpha :: "nat list list"

record CameraInfo =
  uid :: int
  R :: mat3
  T :: vec3
  FovY :: real
  FovX :: real
  image' :: "image option"
  image_path :: "string option"
  image_name :: "string option"
  width :: int
  height :: int
  time :: real
  depth :: "real list list option"
  K :: "mat3 option"
  mask :: "real list list option"

record BasicPointCloud =
  points :: "vec3 list"
  colors :: "vec3 list"
  normals :: "vec3 list"

record nerf_norm =
  translate :: vec3
  radius :: real

record SceneInfo =
  point_cloud :: "BasicPointCloud option"
  train_cameras :: "CameraInfo list"
  test_cameras :: "CameraInfo list"
  video_cameras :: "CameraInfo list"
  nerf_normalization :: nerf_norm
  ply_path :: string
  maxtime :: real

subsection \<open>Scene normalisation: \<open>getNerfppNorm\<close>\<close>

text \<open>
  Modelled from the spec: \<open>getWorld2View2\<close> of \<^verbatim>\<open>utils/graphics_utils.py\<close> is not among
  the sources. It builds the world-to-camera transform of a camera whose stored rotation
  is the transpose of the world-to-camera rotation: the block is \<open>R\<^sup>T\<close> and the
  translation column is \<open>T\<close> (called here with the default zero translation and unit
  scale).
\<close>

definition getWorld2View2 :: "mat3 \<Rightarrow> vec3 \<Rightarrow> affine" where
  "getWorld2View2 Rm t = (transpose3 Rm, t)"

text \<open>The loop of \<open>getNerfppNorm\<close>: \<open>C2W[:3, 3:4]\<close> of every camera, in order.\<close>

definition cam_center :: "CameraInfo \<Rightarrow> error + vec3" where
  "cam_center cam =
     and_then (linalg_inv (getWorld2View2 (R cam) (T cam))) (\<lambda>C2W. Inr (snd C2W))"

definition cam_centers :: "CameraInfo list \<Rightarrow> error + vec3 list" where
  "cam_centers cam_info = map_result cam_center cam_info"

text \<open>\<^verbatim>\<open>np.mean(cam_centers, axis=1)\<close>: the sum of the columns over their number.\<close>

definition vmean :: "vec3 list \<Rightarrow> vec3" where
  "vmean cs = vscale (1 / real (length cs)) (foldr vadd cs vzero)"

text \<open>
  \<open>get_center_and_diag\<close>: \<^verbatim>\<open>np.hstack\<close> of an empty list raises \<open>ValueError\<close>; otherwise the
  centroid and the largest distance from it.
\<close>

definition get_center_and_diag :: "vec3 list \<Rightarrow> error + vec3 \<times> real" where
  "get_center_and_diag cs =
     (case cs of
        [] \<Rightarrow> Inl ValueError
      | c # rest \<Rightarrow>
          (let center = vmean cs;
               dist = (\<lambda>x. vnorm (vsub x center));
               diagonal = fold max (map dist rest) (dist c)
           in Inr (center, diagonal)))"

definition getNerfppNorm :: "CameraInfo list \<Rightarrow> error + nerf_norm" where
  "getNerfppNorm cam_info =
     and_then (cam_centers cam_info) (\<lambda>cs.
     and_then (get_center_and_diag cs) (\<lambda>(center, diagonal).
       Inr \<lparr>translate = vneg center, radius = diagonal * 1.1\<rparr>))"

subsection \<open>The point-cloud store: \<open>storePly\<close> and \<open>fetchPly\<close>\<close>

text \<open>
  A vertex file holds named elements; an element holds named columns of equal length
  (a structured array). Other files are not vertex files at all.
\<close>

record PlyElement =
  el_name :: string
  columns :: "(string \<times> real list) list"

datatype file_content = PlyFile "PlyElement list" | OtherFile

type_synonym files = "string \<rightharpoonup> file_content"

text \<open>\<^verbatim>\<open>PlyData.read(path)\<close>.\<close>

definition PlyData_read :: "files \<Rightarrow> string \<Rightarrow> error + PlyElement list" where
  "PlyData_read fs path =
     (case fs path of
        None \<Rightarrow> Inl FileNotFoundError
      | Some OtherFile \<Rightarrow> Inl PlyParseError
      | Some (PlyFile els) \<Rightarrow> Inr els)"

text \<open>\<^verbatim>\<open>plydata['vertex']\<close>: the first element of that name, \<open>KeyError\<close> without one.\<close>

definition ply_element :: "PlyElement list \<Rightarrow> string \<Rightarrow> error + PlyElement" where
  "ply_element els nm =
     (case filter (\<lambda>e. el_name e = nm) els of
        [] \<Rightarrow> Inl KeyError
      | e # _ \<Rightarrow> Inr e)"

text \<open>\<^verbatim>\<open>vertices['x']\<close>: a column by its field name, \<open>ValueError\<close> without that field.\<close>

definition ply_column :: "PlyElement \<Rightarrow> string \<Rightarrow> error + real list" where
  "ply_column e nm =
     (case map_of (columns e) nm of
        None \<Rightarrow> Inl ValueError
      | Some col \<Rightarrow> Inr col)"

fun zip3 :: "real list \<Rightarrow> real list \<Rightarrow> real list \<Rightarrow> vec3 list" where
  "zip3 (x # xs) (y # ys) (z # zs) = (x, y, z) # zip3 xs ys zs"
| "zip3 _ _ _ = []"

text \<open>\<^verbatim>\<open>np.vstack([a, b, c]).T\<close>: rows of three; columns of unequal length raise.\<close>

definition vstack_T :: "real list \<Rightarrow> real list \<Rightarrow> real list \<Rightarrow> error + vec3 list" where
  "vstack_T xs ys zs =
     (if length ys = length xs \<and> length zs = length xs then Inr (zip3 xs ys zs)
      else Inl ValueError)"

definition columns3 :: "PlyElement \<Rightarrow> string \<Rightarrow> string \<Rightarrow> string \<Rightarrow> error + vec3 list" where
  "columns3 e a b c =
     and_then (ply_column e a) (\<lambda>xs.
     and_then (ply_column e b) (\<lambda>ys.
     and_then (ply_column e c) (\<lambda>zs. vstack_T xs ys zs)))"

definition fetchPly :: "files \<Rightarrow> string \<Rightarrow> error + BasicPointCloud" where
  "fetchPly fs path =
     and_then (PlyData_read fs path) (\<lambda>plydata.
     and_then (ply_element plydata ''vertex'') (\<lambda>vertices.
     and_then (columns3 vertices ''x'' ''y'' ''z'') (\<lambda>positions.
     and_then (columns3 vertices ''red'' ''green'' ''blue'') (\<lambda>rgb.
     and_then (columns3 vertices ''nx'' ''ny'' ''nz'') (\<lambda>nrm.
       Inr \<lparr>points = positions,
            colors = map (\<lambda>(r, g, b). (r / 255, g / 255, b / 255)) rgb,
            normals = nrm\<rparr>)))))"

text \<open>
  \<open>storePly\<close>: the rows \<open>(x, y, z, 0, 0, 0, red, green, blue)\<close>, every attribute narrowed to
  a 32-bit float by \<open>f4\<close>, written as the single element \<open>vertex\<close>. \<^verbatim>\<open>np.concatenate\<close>
  raises \<open>ValueError\<close> when positions and colours differ in their number of rows. The
  file system after the call is returned.
\<close>

definition storePly ::
  "(real \<Rightarrow> real) \<Rightarrow> files \<Rightarrow> string \<Rightarrow> vec3 list \<Rightarrow> vec3 list \<Rightarrow> error + files" where
  "storePly f4 fs path xyz rgb =
     (let nrm = map (\<lambda>_. (0, 0, 0)) xyz
      in if length rgb \<noteq> length xyz then Inl ValueError
         else
           (let attributes = zip xyz (zip nrm rgb);
                col = (\<lambda>sel. map (\<lambda>row. f4 (sel row)) attributes);
                elements =
                  [(''x'', col (\<lambda>((x, y, z), n, c). x)),
                   (''y'', col (\<lambda>((x, y, z), n, c). y)),
                   (''z'', col (\<lambda>((x, y, z), n, c). z)),
                   (''nx'', col (\<lambda>(p, (nx, ny, nz), c). nx)),
                   (''ny'', col (\<lambda>(p, (nx, ny, nz), c). ny)),
                   (''nz'', col (\<lambda>(p, (nx, ny, nz), c). nz)),
                   (''red'', col (\<lambda>(p, n, (r, g, b)). r)),
                   (''green'', col (\<lambda>(p, n, (r, g, b)). g)),
                   (''blue'', col (\<lambda>(p, n, (r, g, b)). b))]
            in Inr (fs(path \<mapsto> PlyFile [\<lparr>el_name = ''vertex'', columns = elements\<rparr>]))))"

subsection \<open>The cast to 32-bit floats\<close>

text \<open>
  The cast of a number to \<^verbatim>\<open>'f4'\<close> (IEEE 754 binary32, round to nearest, ties to even).
  \<open>rne\<close> rounds a real to the nearest integer, a tie to the even one.
\<close>

definition rne :: "real \<Rightarrow> int" where
  "rne y =
     (let f = \<lfloor>y\<rfloor>
      in if y - real_of_int f < 1 / 2 then f
         else if 1 / 2 < y - real_of_int f then f + 1
         else if even f then f else f + 1)"

text \<open>
  A 32-bit float has a significand of 24 bits: in the binade \<open>[2\<^sup>e, 2\<^sup>e\<^sup>+\<^sup>1)\<close> the floats are
  the multiples of \<open>2\<^sup>e\<^sup>-\<^sup>2\<^sup>3\<close>, and below \<open>2\<^sup>-\<^sup>1\<^sup>2\<^sup>6\<close> (the subnormal range) the multiples of
  \<open>2\<^sup>-\<^sup>1\<^sup>4\<^sup>9\<close>. The cast takes the nearest of them.
\<close>

definition binary32 :: "real \<Rightarrow> real" where
  "binary32 x =
     (if x = 0 then 0
      else
        (let e = max (- 126) \<lfloor>log 2 \<bar>x\<bar>\<rfloor>;
             ulp = 2 powr real_of_int (e - 23)
         in real_of_int (rne (x / ulp)) * ulp))"

text \<open>
  The numbers whose cast is finite. Beyond them the cast yields an infinity, which no
  real number stands for: \<open>binary32\<close> is the cast on the finite range only.
\<close>

definition f32_finite :: "real \<Rightarrow> bool" where
  "f32_finite x \<longleftrightarrow> \<bar>x\<bar> < (2 - 1 / 2 ^ 24) * 2 ^ 127"

subsection \<open>Paths\<close>

text \<open>\<^verbatim>\<open>os.path.join\<close> of two components, \<^verbatim>\<open>os.path.basename\<close>, and \<^verbatim>\<open>s.split(".")[0]\<close>.\<close>

definition path_join :: "string \<Rightarrow> string \<Rightarrow> string" where
  "path_join a b =
     (if b \<noteq> [] \<and> hd b = CHR ''/'' then b
      else if a = [] \<or> last a = CHR ''/'' then a @ b
      else a @ ''/'' @ b)"

definition basename :: "string \<Rightarrow> string" where
  "basename p = rev (takeWhile (\<lambda>c. c \<noteq> CHR ''/'') (rev p))"

definition before_dot :: "string \<Rightarrow> string" where
  "before_dot s = takeWhile (\<lambda>c. c \<noteq> CHR ''.'') s"

subsection \<open>The reconstructed-scene (COLMAP) reader\<close>

text \<open>
  The entries the COLMAP parsers return (\<^verbatim>\<open>scene/colmap_loader.py\<close>, not among the
  sources): an image entry with its pose and file name, and a camera entry with its
  intrinsic model.
\<close>

record colmap_image =
  qvec :: "real \<times> real \<times> real \<times> real"
  tvec :: vec3
  camera_id :: int
  name :: string

record colmap_camera =
  cam_id :: int
  cam_model :: string
  cam_width :: int
  cam_height :: int
  cam_params :: "real list"

text \<open>
  What the reader obtains from outside: the results of the parsers on a path, the image
  library, the quaternion and field-of-view helpers, and the 32-bit rounding of the
  vertex file.
\<close>

record env =
  read_extrinsics_binary :: "string \<Rightarrow> error + (int \<times> colmap_image) list"
  read_intrinsics_binary :: "string \<Rightarrow> error + (int \<rightharpoonup> colmap_camera)"
  read_extrinsics_text :: "string \<Rightarrow> error + (int \<times> colmap_image) list"
  read_intrinsics_text :: "string \<Rightarrow> error + (int \<rightharpoonup> colmap_camera)"
  read_points3D_binary :: "string \<Rightarrow> error + vec3 list \<times> vec3 list"
  read_points3D_text :: "string \<Rightarrow> error + vec3 list \<times> vec3 list"
  Image_open :: "string \<Rightarrow> error + image"
  qvec2rotmat :: "real \<times> real \<times> real \<times> real \<Rightarrow> mat3"
  focal2fov :: "real \<Rightarrow> real \<Rightarrow> real"
  fov2focal :: "real \<Rightarrow> real \<Rightarrow> real"
  f4 :: "real \<Rightarrow> real"

text \<open>\<^verbatim>\<open>params[i]\<close> on the parameter array.\<close>

definition param :: "real list \<Rightarrow> nat \<Rightarrow> error + real" where
  "param ps i = (if i < length ps then Inr (ps ! i) else Inl IndexError)"

text \<open>The two fields of view of a COLMAP camera, by its intrinsic model.\<close>

definition colmap_fov :: "env \<Rightarrow> colmap_camera \<Rightarrow> error + real \<times> real" where
  "colmap_fov ev intr =
     (if cam_model intr \<in> {''SIMPLE_PINHOLE'', ''SIMPLE_RADIAL''} then
        and_then (param (cam_params intr) 0) (\<lambda>focal_length_x.
          Inr (focal2fov ev focal_length_x (real_of_int (cam_height intr)),
               focal2fov ev focal_length_x (real_of_int (cam_width intr))))
      else if cam_model intr = ''PINHOLE'' \<or> cam_model intr = ''OPENCV'' then
        and_then (param (cam_params intr) 0) (\<lambda>focal_length_x.
        and_then (param (cam_params intr) 1) (\<lambda>focal_length_y.
          Inr (focal2fov ev focal_length_y (real_of_int (cam_height intr)),
               focal2fov ev focal_length_x (real_of_int (cam_width intr)))))
      else Inl AssertionError)"

text \<open>
  One round of the loop of \<open>readColmapCameras\<close>, for the entry at position \<open>idx\<close> of \<open>n\<close>.
  The pair returned by \<open>colmap_fov\<close> is \<open>(FovY, FovX)\<close>.
\<close>

definition readColmapCamera ::
  "env \<Rightarrow> (int \<rightharpoonup> colmap_camera) \<Rightarrow> string \<Rightarrow> nat \<Rightarrow> nat \<times> int \<times> colmap_image
     \<Rightarrow> error + CameraInfo" where
  "readColmapCamera ev cam_intrinsics images_folder n entry =
     (case entry of (idx, key, extr) \<Rightarrow>
        (case cam_intrinsics (camera_id extr) of
           None \<Rightarrow> Inl KeyError
         | Some intr \<Rightarrow>
             and_then (colmap_fov ev intr) (\<lambda>(fovy, fovx).
               (let path' = path_join images_folder (basename (name extr));
                    nm = before_dot (basename path')
                in and_then (Image_open ev path') (\<lambda>img.
                     Inr \<lparr>uid = cam_id intr,
                          R = transpose3 (qvec2rotmat ev (qvec extr)),
                          T = tvec extr,
                          FovY = fovy, FovX = fovx,
                          image' = Some img,
                          image_path = Some path',
                          image_name = Some nm,
                          width = cam_width intr, height = cam_height intr,
                          time = real idx / real n,
                          depth = None, K = None, mask = None\<rparr>)))))"

definition readColmapCameras ::
  "env \<Rightarrow> (int \<times> colmap_image) list \<Rightarrow> (int \<rightharpoonup> colmap_camera) \<Rightarrow> string
     \<Rightarrow> error + CameraInfo list" where
  "readColmapCameras ev cam_extrinsics cam_intrinsics images_folder =
     map_result (readColmapCamera ev cam_intrinsics images_folder (length cam_extrinsics))
       (enumerate 0 cam_extrinsics)"

text \<open>
  The hold-out split of \<open>readColmapSceneInfo\<close>: with evaluation on, the cameras whose
  position in the sorted list is a multiple of \<open>llffhold\<close> are the test set. \<open>idx % 0\<close>
  raises as soon as there is a camera to test.
\<close>

definition colmap_split ::
  "bool \<Rightarrow> int \<Rightarrow> CameraInfo list \<Rightarrow> error + CameraInfo list \<times> CameraInfo list" where
  "colmap_split eval llffhold cam_infos =
     (if eval then
        (if llffhold = 0 \<and> cam_infos \<noteq> [] then Inl ZeroDivisionError
         else Inr (map snd (filter (\<lambda>(idx, c). int idx mod llffhold \<noteq> 0) (enumerate 0 cam_infos)),
                   map snd (filter (\<lambda>(idx, c). int idx mod llffhold = 0) (enumerate 0 cam_infos))))
      else Inr (cam_infos, []))"

text \<open>A first attempt and, if it raises, a second one (\<^verbatim>\<open>try: ... except: ...\<close>).\<close>

fun or_else :: "error + 'a \<Rightarrow> error + 'a \<Rightarrow> error + 'a" where
  "or_else (Inl e) alt = alt"
| "or_else (Inr x) alt = Inr x"

text \<open>The point cloud of the scene: converted once to a vertex file, then loaded.\<close>

definition colmap_points ::
  "env \<Rightarrow> files \<Rightarrow> string \<Rightarrow> string \<Rightarrow> string \<Rightarrow> error + files" where
  "colmap_points ev fs ply bin txt =
     (if fs ply = None then
        and_then (or_else (read_points3D_binary ev bin) (read_points3D_text ev txt))
          (\<lambda>(xyz, rgb). storePly (f4 ev) fs ply xyz rgb)
      else Inr fs)"

text \<open>\<^verbatim>\<open>try: pcd = fetchPly(ply_path) except: pcd = None\<close>.\<close>

definition fetchPly_or_None :: "files \<Rightarrow> string \<Rightarrow> BasicPointCloud option" where
  "fetchPly_or_None fs path =
     (case fetchPly fs path of Inl e \<Rightarrow> None | Inr pcd \<Rightarrow> Some pcd)"

text \<open>
  The first lines of \<open>readColmapSceneInfo\<close>: the binary parsers are tried first and, if
  either raises, both files are read as text; the cameras are read and sorted by image
  name (\<open>sorted\<close> is stable, as \<open>sort_key\<close> is).
\<close>

definition colmap_cam_infos :: "env \<Rightarrow> string \<Rightarrow> string option \<Rightarrow> error + CameraInfo list" where
  "colmap_cam_infos ev path images =
     and_then
       (or_else
          (and_then (read_extrinsics_binary ev (path_join (path_join path ''sparse/0'') ''images.bin''))
             (\<lambda>ce. and_then (read_intrinsics_binary ev (path_join (path_join path ''sparse/0'') ''cameras.bin''))
                (\<lambda>ci. Inr (ce, ci))))
          (and_then (read_extrinsics_text ev (path_join (path_join path ''sparse/0'') ''images.txt''))
             (\<lambda>ce. and_then (read_intrinsics_text ev (path_join (path_join path ''sparse/0'') ''cameras.txt''))
                (\<lambda>ci. Inr (ce, ci)))))
       (\<lambda>(cam_extrinsics, cam_intrinsics).
     (let reading_dir = (case images of None \<Rightarrow> ''images'' | Some d \<Rightarrow> d) in
     and_then (readColmapCameras ev cam_extrinsics cam_intrinsics (path_join path reading_dir))
       (\<lambda>cam_infos_unsorted. Inr (sort_key image_name cam_infos_unsorted))))"

text \<open>
  \<open>readColmapSceneInfo\<close>. The result is the scene and the file system after the call.
\<close>

definition readColmapSceneInfo ::
  "env \<Rightarrow> files \<Rightarrow> string \<Rightarrow> string option \<Rightarrow> bool \<Rightarrow> int \<Rightarrow> error + SceneInfo \<times> files" where
  "readColmapSceneInfo ev fs path images eval llffhold =
     and_then (colmap_cam_infos ev path images) (\<lambda>cam_infos.
     and_then (colmap_split eval llffhold cam_infos) (\<lambda>(train_cam_infos, test_cam_infos).
     and_then (getNerfppNorm train_cam_infos) (\<lambda>nerf_normalization'.
     (let ply = path_join path ''sparse/0/points3D.ply'';
          bin = path_join path ''sparse/0/points3D.bin'';
          txt = path_join path ''sparse/0/points3D.txt''
      in and_then (colmap_points ev fs ply bin txt) (\<lambda>fs'.
           Inr (\<lparr>point_cloud = fetchPly_or_None fs' ply,
                 train_cameras = train_cam_infos,
                 test_cameras = test_cam_infos,
                 video_cameras = train_cam_infos,
                 nerf_normalization = nerf_normalization',
                 ply_path = ply,
                 maxtime = 0\<rparr>, fs'))))))"

text \<open>
  The schema \<open>fetchPly\<close> expects of a vertex file, in the words of the specification: an
  element \<open>vertex\<close> with the fields \<open>x, y, z, nx, ny, nz, red, green, blue\<close>.
\<close>

definition has_vertex_fields :: "PlyElement list \<Rightarrow> bool" where
  "has_vertex_fields els =
     (case filter (\<lambda>e. el_name e = ''vertex'') els of
        [] \<Rightarrow> False
      | e # _ \<Rightarrow>
          list_all (\<lambda>nm. nm \<in> fst ` set (columns e))
            [''x'', ''y'', ''z'', ''nx'', ''ny'', ''nz'', ''red'', ''green'', ''blue''])"

text \<open>
  A rotation, and the rotation of a point about a centre \<open>m\<close>, in the words of the
  specification (used to state the invariance of the scene radius).
\<close>

definition is_rotation :: "mat3 \<Rightarrow> bool" where
  "is_rotation Q \<longleftrightarrow> mat_mul (transpose3 Q) Q = mat_id \<and> det3 Q = 1"

definition rotate_about :: "mat3 \<Rightarrow> vec3 \<Rightarrow> vec3 \<Rightarrow> vec3" where
  "rotate_about Q m c = vadd m (mat_vec Q (vsub c m))"

subsection \<open>The time line of the synthetic-transforms reader: \<open>read_timeline\<close>\<close>

text \<open>
  A transforms file as \<^verbatim>\<open>json.load\<close> returns it: the frames with their file path, their
  camera-to-world matrix and their time. A frame without the key \<^verbatim>\<open>"time"\<close> has
  \<open>frame_time = None\<close>, and reading the key raises \<open>KeyError\<close>.
\<close>

record frame =
  file_path :: string
  transform_matrix :: affine
  frame_time :: "real option"

record transforms_json =
  camera_angle_x :: "real option"
  frames :: "frame list"

text \<open>\<^verbatim>\<open>[frame["time"] for frame in frames]\<close>.\<close>

definition frame_times :: "frame list \<Rightarrow> error + real list" where
  "frame_times fr =
     map_result (\<lambda>f. case frame_time f of None \<Rightarrow> Inl KeyError | Some t \<Rightarrow> Inr t) fr"

text \<open>
  \<open>read_timeline\<close>. The loader \<open>js\<close> stands for opening and parsing a file. The times of
  both files are collected, made a set, listed and sorted; \<^verbatim>\<open>max\<close> of an empty list raises
  \<open>ValueError\<close>, and the division in the first round of the loop raises
  \<open>ZeroDivisionError\<close> when the largest time is zero. The result is the mapper (a
  dictionary from raw to normalised time) and the largest raw time.
\<close>

definition read_timeline ::
  "(string \<Rightarrow> error + transforms_json) \<Rightarrow> string \<Rightarrow> error + (real \<rightharpoonup> real) \<times> real" where
  "read_timeline js path =
     and_then (js (path_join path ''transforms_train.json'')) (\<lambda>train_json.
     and_then (js (path_join path ''transforms_test.json'')) (\<lambda>test_json.
     and_then (frame_times (frames train_json)) (\<lambda>train_times.
     and_then (frame_times (frames test_json)) (\<lambda>test_times.
       (let time_line = sort (remdups (train_times @ test_times))
        in case time_line of
             [] \<Rightarrow> Inl ValueError
           | t # ts \<Rightarrow>
               (let max_time_float = fold max ts t
                in if max_time_float = 0 then Inl ZeroDivisionError
                   else Inr (fold (\<lambda>time' m. m(time' \<mapsto> time' / max_time_float))
                               time_line Map.empty,
                             max_time_float)))))))"

text \<open>
  The normalised time of a frame, as \<open>readCamerasFromTransforms\<close> looks it up:
  \<^verbatim>\<open>mapper[frame["time"]]\<close>.
\<close>

definition normalised_time :: "(real \<rightharpoonup> real) \<Rightarrow> frame \<Rightarrow> error + real" where
  "normalised_time mapper f =
     (case frame_time f of
        None \<Rightarrow> Inl KeyError
      | Some t \<Rightarrow> (case mapper t of None \<Rightarrow> Inl KeyError | Some t' \<Rightarrow> Inr t'))"

subsection \<open>The multi-rig (Brics) reader: \<open>readBrics\<close>\<close>

text \<open>
  One entry of \<^verbatim>\<open>transforms_<split>.json\<close>: the image size, the intrinsics, the
  camera-to-world matrix and the file path of one rig camera.
\<close>

record brics_frame =
  b_w :: real
  b_h :: real
  b_fl_x :: real
  b_fl_y :: real
  b_cx :: real
  b_cy :: real
  b_transform_matrix :: affine
  b_file_path :: string

text \<open>
  What the multi-rig reader obtains from outside, besides \<open>env\<close>: the parsed frames of a
  transforms file; the pixel a camera projects a grid point to (the rounded result of
  \<open>getWorld2View2\<close>, \<open>getProjectionMatrix\<close> and \<open>ndc2Pix\<close>, which are not among the sources);
  the path interpolation of \<^verbatim>\<open>utils/camera_utils_multinerf.py\<close>; the random numbers; and
  the name of the temporary vertex file.
\<close>

record brics_env =
  brics_json :: "string \<Rightarrow> error + brics_frame list"
  pix :: "CameraInfo \<Rightarrow> vec3 \<Rightarrow> int \<times> int"
  generate_interpolated_path :: "affine list \<Rightarrow> error + affine list"
  random_color :: "nat \<Rightarrow> vec3"
  random_choice :: "nat \<Rightarrow> nat \<Rightarrow> nat list"
  tmp_ply_path :: string

text \<open>\<^verbatim>\<open>int(x)\<close> on a number: truncation towards zero.\<close>

definition py_int :: "real \<Rightarrow> int" where
  "py_int x = (if 0 \<le> x then \<lfloor>x\<rfloor> else \<lceil>x\<rceil>)"

text \<open>\<^verbatim>\<open>s.split(c)\<close>.\<close>

fun split_on :: "char \<Rightarrow> string \<Rightarrow> string list" where
  "split_on c [] = [[]]"
| "split_on c (x # xs) =
     (if x = c then [] # split_on c xs
      else (case split_on c xs of p # ps \<Rightarrow> (x # p) # ps | [] \<Rightarrow> [[x]]))"

text \<open>Decimal digits, and the formats \<^verbatim>\<open>f"{j:08d}"\<close> and \<^verbatim>\<open>f"{j:05}"\<close> for width 8 and 5.\<close>

fun digits :: "nat \<Rightarrow> string" where
  "digits n =
     (if n < 10 then [''0123456789'' ! n]
      else digits (n div 10) @ [''0123456789'' ! (n mod 10)])"

definition format_d :: "nat \<Rightarrow> int \<Rightarrow> string" where
  "format_d wd j =
     (if j < 0
      then CHR ''-'' # replicate (wd - 1 - length (digits (nat (- j)))) CHR ''0'' @ digits (nat (- j))
      else replicate (wd - length (digits (nat j))) CHR ''0'' @ digits (nat j))"

text \<open>
  \<^verbatim>\<open>pose[:3, 1:3] *= -1\<close>: the second and third column of the rotation block change sign
  (from OpenGL axes to COLMAP axes).
\<close>

fun opencv_pose :: "affine \<Rightarrow> affine" where
  "opencv_pose (((a, b, c), (d, e, f), (g, h, i)), t) =
     (((a, - b, - c), (d, - e, - f), (g, - h, - i)), t)"

text \<open>\<^verbatim>\<open>frames[i]['file_path'].split('/')[-2]\<close>: the directory of the image, the camera name.\<close>

definition brics_cam_id :: "brics_frame \<Rightarrow> error + string" where
  "brics_cam_id fr =
     (let parts = split_on CHR ''/'' (b_file_path fr)
      in if length parts < 2 then Inl IndexError
         else Inr (parts ! (length parts - 2)))"

text \<open>
  One round of the inner loop of \<open>readBrics\<close>: camera \<open>cam_idx\<close> at frame
  \<open>j = start_t + k\<close>. The time of the camera is the frame offset \<open>j - start_t\<close>, as it is.
  The mask is the alpha channel over 255; the image kept is the RGB composite, which has
  no transparency. The intrinsics object of the source (\<^verbatim>\<open>utils/camera_utils.py\<close>, not
  among the sources) holds the size of the first frame and the per-frame focal lengths
  and centres, scaled by \<open>1/downsample = 1\<close>. The background colour only enters the pixel
  colours, which are not modelled.
\<close>

definition readBricsCamera ::
  "env \<Rightarrow> string \<Rightarrow> brics_frame list \<Rightarrow> string list \<Rightarrow> int \<Rightarrow> int \<Rightarrow> nat \<times> nat
     \<Rightarrow> error + string \<times> CameraInfo" where
  "readBricsCamera ev datadir frs cam_ids start_t num_t entry =
     (case entry of (cam_idx, k) \<Rightarrow>
       (let cam_name = cam_ids ! cam_idx;
            j = start_t + int k;
            img_path = path_join (path_join (path_join datadir ''frames_1'') cam_name)
                         (format_d 8 j @ ''.png'');
            timestamp = j - start_t;
            nm = path_join cam_name (format_d 8 j);
            fr = frs ! cam_idx
        in and_then (Image_open ev img_path) (\<lambda>img.
           and_then (linalg_inv (opencv_pose (b_transform_matrix fr))) (\<lambda>w2c.
             Inr (cam_name,
                  \<lparr>uid = int (cam_idx * nat num_t + k),
                   R = transpose3 (fst w2c),
                   T = snd w2c,
                   FovY = focal2fov ev (b_fl_y fr) (real_of_int (py_int (b_h (hd frs)))),
                   FovX = focal2fov ev (b_fl_x fr) (real_of_int (py_int (b_w (hd frs)))),
                   image' = Some (img\<lparr>alpha := map (map (\<lambda>a. 255)) (alpha img)\<rparr>),
                   image_path = Some img_path,
                   image_name = Some nm,
                   width = int (size_w img), height = int (size_h img),
                   time = real_of_int timestamp,
                   depth = None,
                   K = Some ((b_fl_x fr, 0, b_cx fr), (0, b_fl_y fr, b_cy fr), (0, 0, 1)),
                   mask = Some (map (map (\<lambda>a. real a / 255)) (alpha img))\<rparr>)))))"

text \<open>
  \<open>readBrics\<close>, as \<open>readBricsSceneInfo\<close> calls it (no downsampling, COLMAP axes): the
  cameras of all rig cameras at all requested frames, and the dictionary of the cameras
  at frame offset 0 by camera name.
\<close>

definition readBrics ::
  "env \<Rightarrow> brics_env \<Rightarrow> string \<Rightarrow> string \<Rightarrow> int \<Rightarrow> int
     \<Rightarrow> error + CameraInfo list \<times> (string \<rightharpoonup> CameraInfo)" where
  "readBrics ev bv datadir split start_t num_t =
     (if split \<notin> {''train'', ''test'', ''org''} then Inl AssertionError
      else
        and_then (brics_json bv (path_join datadir (''transforms_'' @ split @ ''.json''))) (\<lambda>frs.
          if frs = [] then Inl IndexError
          else
            and_then (map_result brics_cam_id frs) (\<lambda>cam_ids.
            and_then
              (map_result (readBricsCamera ev datadir frs cam_ids start_t num_t)
                 (concat (map (\<lambda>cam_idx. map (\<lambda>k. (cam_idx, k)) [0..<nat num_t])
                            [0..<length cam_ids])))
              (\<lambda>named.
                 Inr (map snd named,
                      fold (\<lambda>(cam_name, cam_info) d.
                              if time cam_info = 0 then d(cam_name \<mapsto> cam_info) else d)
                        named Map.empty)))))"

subsection \<open>Hull carving and \<open>readBricsSceneInfo\<close>\<close>

definition first_frame_cameras :: "CameraInfo list \<Rightarrow> CameraInfo list" where
  "first_frame_cameras train_cam_infos = filter (\<lambda>cam. time cam = 0) train_cam_infos"

text \<open>\<^verbatim>\<open>np.linspace(a, b, n)\<close>.\<close>

definition linspace :: "real \<Rightarrow> real \<Rightarrow> nat \<Rightarrow> real list" where
  "linspace a b n = map (\<lambda>i. a + real i * ((b - a) / real (n - 1))) [0..<n]"

text \<open>
  The grid of \<open>128\<^sup>3\<close> points in \<open>[-3, 3]\<^sup>3\<close>: \<^verbatim>\<open>np.meshgrid\<close> with its default indexing
  varies the second coordinate slowest, then the first, then the third.
\<close>

definition grid_loc :: "vec3 list" where
  "grid_loc =
     (let g = linspace (- 3) 3 128
      in concat (map (\<lambda>y. concat (map (\<lambda>x. map (\<lambda>z. (x, y, z)) g) g)) g))"

text \<open>\<^verbatim>\<open>cam_mask[v, u]\<close> for a pixel inside the image; a mask smaller than the image raises.\<close>

definition mask_at :: "real list list \<Rightarrow> int \<Rightarrow> int \<Rightarrow> error + real" where
  "mask_at cam_mask v u =
     (if nat v < length cam_mask \<and> nat u < length (cam_mask ! nat v)
      then Inr (cam_mask ! nat v ! nat u) else Inl IndexError)"

text \<open>
  One camera's round of the carving loop: every grid point that projects inside the
  image bounds and onto a pixel of positive mask has its counter raised by one.
\<close>

definition carve_camera ::
  "brics_env \<Rightarrow> vec3 list \<Rightarrow> nat list \<Rightarrow> CameraInfo \<Rightarrow> error + nat list" where
  "carve_camera bv grid grid_counter cam =
     (case image' cam of
        None \<Rightarrow> Inl AttributeError
      | Some img \<Rightarrow>
          (let W = int (size_w img); H = int (size_h img)
           in case mask cam of
                None \<Rightarrow> Inl IndexError
              | Some cam_mask \<Rightarrow>
                  map_result
                    (\<lambda>(p, n). case pix bv cam p of (u, v) \<Rightarrow>
                       if 0 \<le> u \<and> u < W \<and> 0 \<le> v \<and> v < H
                       then and_then (mask_at cam_mask v u)
                              (\<lambda>m. Inr (if 0 < m then n + 1 else n))
                       else Inr n)
                    (zip grid grid_counter)))"

fun carve :: "brics_env \<Rightarrow> vec3 list \<Rightarrow> nat list \<Rightarrow> CameraInfo list \<Rightarrow> error + nat list" where
  "carve bv grid grid_counter [] = Inr grid_counter"
| "carve bv grid grid_counter (cam # cams) =
     and_then (carve_camera bv grid grid_counter cam) (\<lambda>c. carve bv grid c cams)"

text \<open>
  The carving: the counters start at one (\<^verbatim>\<open>np.ones_like\<close>), every first-frame camera
  votes, and the points whose counter exceeds 15 survive. The grid handed to the
  projection is in 32-bit floats.
\<close>

definition hull_mask :: "brics_env \<Rightarrow> vec3 list \<Rightarrow> CameraInfo list \<Rightarrow> error + bool list" where
  "hull_mask bv grid train_cam_infos =
     and_then (carve bv grid (replicate (length grid) 1) (first_frame_cameras train_cam_infos))
       (\<lambda>grid_counter. Inr (map (\<lambda>n. 15 < n) grid_counter))"

definition hull_points :: "brics_env \<Rightarrow> vec3 list \<Rightarrow> CameraInfo list \<Rightarrow> error + vec3 list" where
  "hull_points bv grid train_cam_infos =
     and_then (hull_mask bv grid train_cam_infos)
       (\<lambda>grid_mask. Inr (map fst (filter snd (zip grid grid_mask))))"

definition vis_cam_order :: "string list" where
  "vis_cam_order =
     [''cam01'', ''cam04'', ''cam09'', ''cam15'', ''cam23'', ''cam28'', ''cam32'', ''cam34'',
      ''cam35'', ''cam36'', ''cam37''] @ [''cam01'', ''cam04'']"

text \<open>
  The preview cameras: a path interpolated through the named rig cameras, one camera
  per pose, with frame offsets that run forward and then backward over \<open>num_t\<close> frames.
\<close>

definition brics_video_cameras ::
  "brics_env \<Rightarrow> CameraInfo list \<Rightarrow> (string \<rightharpoonup> CameraInfo) \<Rightarrow> int \<Rightarrow> error + CameraInfo list" where
  "brics_video_cameras bv train_cam_infos train_camera_dict num_t =
     and_then
       (map_result (\<lambda>vis_cam_id. case train_camera_dict vis_cam_id of
                       None \<Rightarrow> Inl KeyError | Some cam \<Rightarrow> Inr cam) vis_cam_order)
       (\<lambda>cam_id_order.
     and_then (map_result (\<lambda>cam. linalg_inv (R cam, T cam)) cam_id_order) (\<lambda>vis_C2W.
     and_then (generate_interpolated_path bv vis_C2W) (\<lambda>visualization_poses.
       (let timesteps = map int [0..<nat num_t];
            timesteps_rev = timesteps @ rev timesteps
        in map_result
             (\<lambda>(idx, pose).
                and_then (linalg_inv pose) (\<lambda>Rt.
                  if timesteps_rev = [] then Inl ZeroDivisionError
                  else (case train_cam_infos of
                          [] \<Rightarrow> Inl IndexError
                        | c0 # _ \<Rightarrow>
                            (case image' c0 of
                               None \<Rightarrow> Inl AttributeError
                             | Some img \<Rightarrow>
                                 Inr \<lparr>uid = int idx,
                                      R = fst Rt, T = snd Rt,
                                      FovY = FovY c0, FovX = FovX c0,
                                      image' = None, image_path = None,
                                      image_name = Some (format_d 5 (int idx)),
                                      width = int (size_w img), height = int (size_h img),
                                      time = real_of_int
                                        (timesteps_rev ! (idx mod length timesteps_rev)),
                                      depth = None, K = None, mask = None\<rparr>))))
             (enumerate 0 visualization_poses)))))"

text \<open>The grid as the carving loop sees it, in 32-bit floats.\<close>

definition brics_grid :: "env \<Rightarrow> vec3 list" where
  "brics_grid ev = map (\<lambda>(x, y, z). (f4 ev x, f4 ev y, f4 ev z)) grid_loc"

text \<open>
  \<^verbatim>\<open>xyz[np.random.choice(xyz.shape[0], num_pts, replace=False)]\<close> when more than
  \<open>num_pts\<close> points survive, and the random colours \<^verbatim>\<open>np.random.random((n, 3)) / 255.0\<close>.
\<close>

definition brics_subsample :: "brics_env \<Rightarrow> nat \<Rightarrow> vec3 list \<Rightarrow> vec3 list" where
  "brics_subsample bv num_pts xyz =
     (if num_pts < length xyz
      then map (nth xyz) (random_choice bv (length xyz) num_pts)
      else xyz)"

definition brics_colors :: "brics_env \<Rightarrow> nat \<Rightarrow> vec3 list" where
  "brics_colors bv n = map (\<lambda>i. vscale (1 / 255) (random_color bv i)) [0..<n]"

text \<open>
  \<open>readBricsSceneInfo\<close>. The points that survive the carving are subsampled, given
  random colours, and stored in a temporary vertex file. The images the source writes
  for inspection are not modelled.
\<close>

definition readBricsSceneInfo ::
  "env \<Rightarrow> brics_env \<Rightarrow> files \<Rightarrow> string \<Rightarrow> nat \<Rightarrow> int \<Rightarrow> int \<Rightarrow> string \<Rightarrow> bool
     \<Rightarrow> error + SceneInfo \<times> files" where
  "readBricsSceneInfo ev bv fs path num_pts start_t num_t init create_video_cams =
     and_then (readBrics ev bv path ''train'' start_t num_t)
       (\<lambda>(train_cam_infos, train_camera_dict).
     and_then (readBrics ev bv path ''test'' start_t num_t) (\<lambda>(test_cam_infos, test_camera_dict).
       if init \<noteq> ''hull'' then Inl NotImplementedError
       else
         and_then (hull_points bv (brics_grid ev) train_cam_infos) (\<lambda>carved.
         (let xyz = brics_subsample bv num_pts carved;
              cols = brics_colors bv (length xyz);
              pcd = \<lparr>points = xyz, colors = cols, normals = map (\<lambda>p. (0, 0, 0)) xyz\<rparr>
          in and_then (storePly (f4 ev) fs (tmp_ply_path bv) xyz cols) (\<lambda>fs'.
             and_then (if create_video_cams
                       then brics_video_cameras bv train_cam_infos train_camera_dict num_t
                       else Inr [])
               (\<lambda>video_cams.
             and_then (getNerfppNorm train_cam_infos) (\<lambda>nerf_normalization'.
               Inr (\<lparr>point_cloud = Some pcd,
                     train_cameras = train_cam_infos,
                     test_cameras = test_cam_infos,
                     video_cameras = video_cams,
                     nerf_normalization = nerf_normalization',
                     ply_path = tmp_ply_path bv,
                     maxtime = real_of_int num_t\<rparr>, fs'))))))))"

text \<open>
  In the words of the specification: a grid point projects inside the image bounds of a
  camera, and a camera sees a grid point (inside the bounds, on a pixel whose alpha-mask
  value is positive).
\<close>

definition in_image :: "brics_env \<Rightarrow> CameraInfo \<Rightarrow> vec3 \<Rightarrow> bool" where
  "in_image bv cam p =
     (case image' cam of
        None \<Rightarrow> False
      | Some img \<Rightarrow>
          (case pix bv cam p of (u, v) \<Rightarrow>
             0 \<le> u \<and> u < int (size_w img) \<and> 0 \<le> v \<and> v < int (size_h img)))"


subsection \<open>A small reconstructed scene, for concrete instances\<close>

definition ex_camera :: colmap_camera where
  "ex_camera = \<lparr>cam_id = 1, cam_model = ''PINHOLE'', cam_width = 4, cam_height = 3,
     cam_params = [2, 2, 2, 3 / 2]\<rparr>"

definition ex_image :: "nat \<Rightarrow> colmap_image" where
  "ex_image k = \<lparr>qvec = (1, 0, 0, 0), tvec = (real k, 0, 0), camera_id = 1,
     name = replicate k CHR ''a'' @ ''.png''\<rparr>"

definition ex_env :: "nat \<Rightarrow> env" where
  "ex_env n =
     \<lparr>read_extrinsics_binary = (\<lambda>p. Inr (map (\<lambda>k. (int k, ex_image k)) [0..<n])),
      read_intrinsics_binary = (\<lambda>p. Inr [1 \<mapsto> ex_camera]),
      read_extrinsics_text = (\<lambda>p. Inl FileNotFoundError),
      read_intrinsics_text = (\<lambda>p. Inl FileNotFoundError),
      read_points3D_binary = (\<lambda>p. Inr ([(0, 0, 0), (1, 2, 3)], [(255, 0, 0), (0, 51, 102)])),
      read_points3D_text = (\<lambda>p. Inl FileNotFoundError),
      Image_open = (\<lambda>p. Inr \<lparr>size_w = 4, size_h = 3, alpha = replicate 3 (replicate 4 255)\<rparr>),
      qvec2rotmat = (\<lambda>q. mat_id),
      focal2fov = (\<lambda>focal pixels. 2 * arctan (pixels / (2 * focal))),
      fov2focal = (\<lambda>fov pixels. pixels / (2 * tan (fov / 2))),
      f4 = (\<lambda>x. x)\<rparr>"



text \<open>
  A rounding to 32-bit floats on the few values the instances below store: one third is
  not a 32-bit float, and its nearest one is \<open>11184811 / 2\<^sup>2\<^sup>5\<close>; the other values used are
  32-bit floats already.
\<close>

definition ex_f4 :: "real \<Rightarrow> real" where
  "ex_f4 x = (if x = 1 / 3 then 11184811 / 33554432 else x)"

text \<open>
  Two files at the place of the scene's point cloud that are vertex files of another
  schema: one whose vertices have no colours, one with faces and no vertices.
\<close>

definition ex_fs_no_colors :: files where
  "ex_fs_no_colors =
     [''scene/sparse/0/points3D.ply'' \<mapsto>
        PlyFile [\<lparr>el_name = ''vertex'',
                  columns = [(''x'', [0, 1]), (''y'', [0, 2]), (''z'', [0, 3])]\<rparr>]]"

definition ex_fs_no_vertex :: files where
  "ex_fs_no_vertex =
     [''scene/sparse/0/points3D.ply'' \<mapsto>
        PlyFile [\<lparr>el_name = ''face'', columns = [(''vertex_indices'', [0, 1, 2])]\<rparr>]]"

text \<open>
  A synthetic scene in the directory \<open>scene\<close> whose train and test files declare the given
  frame times.
\<close>

definition ex_frame :: "real \<Rightarrow> frame" where
  "ex_frame t = \<lparr>file_path = ''r_0'', transform_matrix = (mat_id, vzero), frame_time = Some t\<rparr>"

definition ex_js :: "real list \<Rightarrow> real list \<Rightarrow> string \<Rightarrow> error + transforms_json" where
  "ex_js train_times test_times p =
     (if p = ''scene/transforms_train.json''
      then Inr \<lparr>camera_angle_x = Some 1, frames = map ex_frame train_times\<rparr>
      else if p = ''scene/transforms_test.json''
      then Inr \<lparr>camera_angle_x = Some 1, frames = map ex_frame test_times\<rparr>
      else Inl FileNotFoundError)"

text \<open>
  A camera with the identity rotation placed at a given centre, and the quarter turn
  about the third axis.
\<close>

definition ex_cam_at :: "vec3 \<Rightarrow> CameraInfo" where
  "ex_cam_at c =
     \<lparr>uid = 0, R = mat_id, T = vneg c, FovY = 1, FovX = 1, image' = None,
      image_path = None, image_name = None, width = 4, height = 3, time = 0,
      depth = None, K = None, mask = None\<rparr>"

definition ex_quarter_turn :: mat3 where
  "ex_quarter_turn = ((0, - 1, 0), (1, 0, 0), (0, 0, 1))"

text \<open>
  A camera placed at a given centre whose rotation is the quarter turn: its translation is
  minus the centre in camera coordinates.
\<close>

definition ex_cam_turned :: "vec3 \<Rightarrow> CameraInfo" where
  "ex_cam_turned c =
     \<lparr>uid = 0, R = ex_quarter_turn, T = vneg (mat_vec (transpose3 ex_quarter_turn) c),
      FovY = 1, FovX = 1, image' = None,
      image_path = None, image_name = None, width = 4, height = 3, time = 0,
      depth = None, K = None, mask = None\<rparr>"

text \<open>
  A rig in the directory \<open>rig\<close> with the named cameras, all of one pose, whose images are
  those of the small scene above; every grid point projects to the pixel \<open>(-1, -1)\<close>,
  outside every image. The interpolated path is the list of key poses itself.
\<close>

definition ex_rig_frame :: "string \<Rightarrow> brics_frame" where
  "ex_rig_frame nm =
     \<lparr>b_w = 4, b_h = 3, b_fl_x = 2, b_fl_y = 2, b_cx = 2, b_cy = 3 / 2,
      b_transform_matrix = (mat_id, (0, 0, 10)),
      b_file_path = ''frames_1/'' @ nm @ ''/00000000.png''\<rparr>"

definition ex_rig :: "string list \<Rightarrow> brics_env" where
  "ex_rig names =
     \<lparr>brics_json = (\<lambda>p. Inr (map ex_rig_frame names)),
      pix = (\<lambda>cam p. (- 1, - 1)),
      generate_interpolated_path = (\<lambda>poses. Inr poses),
      random_color = (\<lambda>i. (0, 0, 0)),
      random_choice = (\<lambda>n k. [0..<k]),
      tmp_ply_path = ''/tmp/brics.ply''\<rparr>"

definition ex_rig_names :: "string list" where
  "ex_rig_names =
     [''cam01'', ''cam04'', ''cam09'', ''cam15'', ''cam23'', ''cam28'', ''cam32'', ''cam34'',
      ''cam35'', ''cam36'', ''cam37'']"



section \<open>Properties\<close>

subsection \<open>Shared lemmas\<close>

lemma and_then_Inr: "and_then r f = Inr y \<longleftrightarrow> (\<exists>x. r = Inr x \<and> f x = Inr y)"
  by (cases r) auto

lemma map_result_Cons_Inr:
  "map_result f (x # xs) = Inr zs \<longleftrightarrow>
     (\<exists>y ys. f x = Inr y \<and> map_result f xs = Inr ys \<and> zs = y # ys)"
  by (auto simp: and_then_Inr)

lemma map_result_length: "map_result f xs = Inr ys \<Longrightarrow> length ys = length xs"
  by (induction xs arbitrary: ys) (auto simp: and_then_Inr)

lemma enumerate_filter_nth:
  "map snd (filter (\<lambda>(i, c). P i) (enumerate 0 xs)) = map (nth xs) (filter P [0..<length xs])"
proof (induction xs rule: rev_induct)
  case Nil
  show ?case by simp
next
  case (snoc x xs)
  have "map (nth (xs @ [x])) (filter P [0..<length xs]) = map (nth xs) (filter P [0..<length xs])"
    by (rule map_cong) (auto simp: nth_append)
  with snoc show ?case
    by (simp add: enumerate_append_eq)
qed

lemma readColmapCamera_time:
  "readColmapCamera ev ci folder n (idx, key, extr) = Inr cam \<Longrightarrow> time cam = real idx / real n"
  by (auto simp: readColmapCamera_def and_then_Inr Let_def split: option.splits prod.splits)

lemma colmap_loop_times:
  "map_result (readColmapCamera ev ci folder n) (enumerate k xs) = Inr cams
     \<Longrightarrow> map time cams = map (\<lambda>i. real i / real n) [k..<k + length xs]"
proof (induction xs arbitrary: k cams)
  case Nil
  then show ?case by simp
next
  case (Cons x xs)
  obtain key extr where x: "x = (key, extr)" by (cases x)
  from Cons.prems obtain c cs where
    c: "readColmapCamera ev ci folder n (k, key, extr) = Inr c" and
    cs: "map_result (readColmapCamera ev ci folder n) (enumerate (Suc k) xs) = Inr cs" and
    eq: "cams = c # cs"
    by (auto simp: x and_then_Inr)
  have "map time cs = map (\<lambda>i. real i / real n) [Suc k..<Suc k + length xs]"
    by (rule Cons.IH [OF cs])
  moreover have "time c = real k / real n"
    by (rule readColmapCamera_time [OF c])
  moreover have "[k..<k + length (x # xs)] = k # [Suc k..<Suc k + length xs]"
    by (simp add: upt_conv_Cons del: upt_Suc)
  ultimately show ?case
    by (simp add: eq del: upt_Suc)
qed

lemma readColmapCameras_times:
  assumes "readColmapCameras ev ce ci folder = Inr cams"
  shows "map time cams = map (\<lambda>i. real i / real (length cams)) [0..<length cams]"
proof -
  have len: "length cams = length ce"
    using assms map_result_length [of _ "enumerate 0 ce" cams]
    by (simp add: readColmapCameras_def)
  show ?thesis
    using colmap_loop_times [of ev ci folder "length ce" 0 ce cams] assms
    by (simp add: readColmapCameras_def len)
qed

lemma readColmapCameras_distinct:
  assumes "readColmapCameras ev ce ci folder = Inr cams"
  shows "distinct cams"
proof -
  have "inj_on (\<lambda>i. real i / real (length cams)) {0..<length cams}"
    by (auto simp: inj_on_def)
  then have "distinct (map (\<lambda>i. real i / real (length cams)) [0..<length cams])"
    by (simp add: distinct_map)
  then have "distinct (map time cams)"
    by (simp add: readColmapCameras_times [OF assms])
  then show ?thesis
    by (simp add: distinct_map)
qed

lemma count_multiples:
  "0 < k \<Longrightarrow> length (filter (\<lambda>i. k dvd i) [0..<n]) = (n + k - 1) div k"
proof (induction n)
  case 0
  then show ?case by simp
next
  case (Suc n)
  have "(Suc n + k - 1) div k = (n + k) div k" by simp
  also have "\<dots> = Suc (n div k)" using Suc.prems by simp
  finally have a: "(Suc n + k - 1) div k = Suc (n div k)" .
  have b: "(n + k - 1) div k = (if k dvd n then n div k else Suc (n div k))"
  proof (cases n)
    case 0
    then show ?thesis using Suc.prems by simp
  next
    case (Suc m)
    have "(n + k - 1) div k = (m + k) div k" using Suc by simp
    also have "\<dots> = Suc (m div k)" using \<open>0 < k\<close> by simp
    finally show ?thesis
      using Suc by (simp add: div_Suc mod_eq_0_iff_dvd)
  qed
  show ?case
    using Suc a b by simp
qed


lemma index_partition:
  assumes "distinct xs"
  shows "set (map (nth xs) (filter (\<lambda>i. \<not> P i) [0..<length xs])) \<inter>
           set (map (nth xs) (filter P [0..<length xs])) = {}"
    and "set (map (nth xs) (filter (\<lambda>i. \<not> P i) [0..<length xs])) \<union>
           set (map (nth xs) (filter P [0..<length xs])) = set xs"
proof -
  show "set (map (nth xs) (filter (\<lambda>i. \<not> P i) [0..<length xs])) \<inter>
           set (map (nth xs) (filter P [0..<length xs])) = {}"
    using assms by (auto simp: nth_eq_iff_index_eq)
  show "set (map (nth xs) (filter (\<lambda>i. \<not> P i) [0..<length xs])) \<union>
           set (map (nth xs) (filter P [0..<length xs])) = set xs"
    by (fastforce simp: in_set_conv_nth image_iff)
qed

lemma count_multiples_int:
  assumes "N \<noteq> 0"
  shows "int (length (filter (\<lambda>i. N dvd int i) [0..<n])) = (int n + \<bar>N\<bar> - 1) div \<bar>N\<bar>"
proof -
  define k where "k = nat \<bar>N\<bar>"
  have k: "0 < k" "int k = \<bar>N\<bar>" using assms by (auto simp: k_def)
  have "\<And>i. N dvd int i \<longleftrightarrow> k dvd i"
  proof -
    fix i
    have "N dvd int i \<longleftrightarrow> \<bar>N\<bar> dvd int i" by simp
    also have "\<dots> \<longleftrightarrow> int k dvd int i" by (simp only: k)
    also have "\<dots> \<longleftrightarrow> k dvd i" by (rule int_dvd_int_iff)
    finally show "N dvd int i \<longleftrightarrow> k dvd i" .
  qed
  then have "length (filter (\<lambda>i. N dvd int i) [0..<n]) = (n + k - 1) div k"
    using count_multiples [OF k(1), of n] by simp
  then have "int (length (filter (\<lambda>i. N dvd int i) [0..<n])) = int ((n + k - 1) div k)"
    by simp
  also have "\<dots> = int (n + k - 1) div int k" by (rule zdiv_int)
  also have "int (n + k - 1) = int n + int k - 1" using k(1) by (simp add: of_nat_diff)
  finally show ?thesis by (simp only: k)
qed

lemma sixteen_test: "filter (\<lambda>i. (8::int) dvd int i) [0..<16] = [0, 8]"
  by code_simp

lemma sixteen_train: "length (filter (\<lambda>i. \<not> (8::int) dvd int i) [0..<16]) = 14"
  by code_simp

lemma getNerfppNorm_nonempty: "getNerfppNorm cams = Inr nn \<Longrightarrow> cams \<noteq> []"
  by (auto simp: getNerfppNorm_def cam_centers_def get_center_and_diag_def)

lemma colmap_cam_infos_distinct:
  assumes "colmap_cam_infos ev path images = Inr cam_infos"
  shows "distinct cam_infos" and "sorted (map image_name cam_infos)"
proof -
  from assms obtain ce ci folder unsorted where
    rd: "readColmapCameras ev ce ci folder = Inr unsorted" and
    srt: "cam_infos = sort_key image_name unsorted"
    by (auto simp: colmap_cam_infos_def and_then_Inr Let_def)
  show "distinct cam_infos"
    using readColmapCameras_distinct [OF rd] by (simp add: srt)
  show "sorted (map image_name cam_infos)"
    by (simp add: srt sorted_sort_key)
qed

lemma colmap_split_eval:
  assumes "colmap_split True N cam_infos = Inr (train, test)"
  shows "test = map (nth cam_infos) (filter (\<lambda>i. N dvd int i) [0..<length cam_infos])"
    and "train = map (nth cam_infos) (filter (\<lambda>i. \<not> N dvd int i) [0..<length cam_infos])"
  using assms
  by (auto simp: colmap_split_def enumerate_filter_nth mod_eq_0_iff_dvd split: if_splits)

lemma map_result_total:
  "(\<And>x. x \<in> set xs \<Longrightarrow> \<exists>y. f x = Inr y) \<Longrightarrow> \<exists>ys. map_result f xs = Inr ys"
proof (induction xs)
  case Nil
  show ?case by simp
next
  case (Cons x xs)
  obtain y where y: "f x = Inr y" using Cons.prems [of x] by auto
  obtain ys where ys: "map_result f xs = Inr ys" using Cons by auto
  show ?case by (simp add: y ys)
qed

lemma map_result_all:
  "map_result f xs = Inr ys \<Longrightarrow> y \<in> set ys \<Longrightarrow> \<exists>x \<in> set xs. f x = Inr y"
  by (induction xs arbitrary: ys) (auto simp: and_then_Inr)

lemma getNerfppNorm_returns:
  assumes "cams \<noteq> []" and "\<And>c. c \<in> set cams \<Longrightarrow> det3 (transpose3 (R c)) \<noteq> 0"
  shows "\<exists>nn. getNerfppNorm cams = Inr nn"
proof -
  have "\<exists>cs. map_result cam_center cams = Inr cs"
  proof (rule map_result_total)
    fix c assume "c \<in> set cams"
    then have "cam_center c = Inr (vneg (mat_vec (inv3 (transpose3 (R c))) (T c)))"
      by (simp add: cam_center_def getWorld2View2_def assms(2))
    then show "\<exists>y. cam_center c = Inr y" by (rule exI)
  qed
  then obtain cs where cs: "map_result cam_center cams = Inr cs" ..
  have "length cs = length cams" by (rule map_result_length [OF cs])
  with assms(1) obtain c rest where "cs = c # rest" by (cases cs) auto
  then show ?thesis
    by (simp add: getNerfppNorm_def cam_centers_def cs get_center_and_diag_def Let_def)
qed

lemma readColmapCamera_R:
  "readColmapCamera ev ci folder n (idx, key, extr) = Inr cam
     \<Longrightarrow> R cam = transpose3 (qvec2rotmat ev (qvec extr))"
  by (auto simp: readColmapCamera_def and_then_Inr Let_def split: option.splits prod.splits)

lemma colmap_cam_infos_R:
  assumes "colmap_cam_infos ev path images = Inr cam_infos" and "c \<in> set cam_infos"
  shows "\<exists>q. R c = transpose3 (qvec2rotmat ev q)"
proof -
  from assms(1) obtain ce ci folder unsorted where
    rd: "readColmapCameras ev ce ci folder = Inr unsorted" and
    srt: "cam_infos = sort_key image_name unsorted"
    by (auto simp: colmap_cam_infos_def and_then_Inr Let_def)
  from assms(2) have "c \<in> set unsorted" by (simp add: srt)
  with rd obtain e where
    "readColmapCamera ev ci folder (length ce) e = Inr c"
    unfolding readColmapCameras_def by (blast dest: map_result_all)
  then have "R c = transpose3 (qvec2rotmat ev (qvec (snd (snd e))))"
    by (cases e) (simp add: readColmapCamera_R)
  then show ?thesis by (rule exI)
qed

lemma colmap_split_subset:
  assumes "colmap_split eval N cam_infos = Inr (train, test)"
  shows "set train \<subseteq> set cam_infos"
  using assms
  by (auto simp: colmap_split_def in_set_enumerate_eq split: if_splits)

lemma ex_env_camera:
  "\<exists>y. readColmapCamera (ex_env n) [1 \<mapsto> ex_camera] folder m (idx, key, ex_image k) = Inr y"
  by (simp add: readColmapCamera_def ex_env_def ex_image_def ex_camera_def colmap_fov_def
      param_def Let_def)

lemma ex_env_cam_infos:
  "\<exists>cams. colmap_cam_infos (ex_env n) path None = Inr cams \<and> length cams = n"
proof -
  let ?ce = "map (\<lambda>k. (int k, ex_image k)) [0..<n]"
  have "\<exists>ys. map_result (readColmapCamera (ex_env n) [1 \<mapsto> ex_camera] (path_join path ''images'')
      (length ?ce)) (enumerate 0 ?ce) = Inr ys"
  proof (rule map_result_total)
    fix x assume "x \<in> set (enumerate 0 ?ce)"
    then have "fst x < n" and "snd x = ?ce ! fst x"
      by (auto simp: in_set_enumerate_eq)
    then have "x = (fst x, int (fst x), ex_image (fst x))"
      by (cases x) simp
    then show "\<exists>y. readColmapCamera (ex_env n) [1 \<mapsto> ex_camera] (path_join path ''images'')
      (length ?ce) x = Inr y"
      using ex_env_camera [of n "path_join path ''images''" "length ?ce" "fst x" "int (fst x)" "fst x"]
      by simp
  qed
  then obtain ys where ys: "readColmapCameras (ex_env n) ?ce [1 \<mapsto> ex_camera]
      (path_join path ''images'') = Inr ys"
    unfolding readColmapCameras_def ..
  have "length ys = n"
    using map_result_length [OF ys [unfolded readColmapCameras_def]] by simp
  moreover have "colmap_cam_infos (ex_env n) path None = Inr (sort_key image_name ys)"
    using ys by (simp add: colmap_cam_infos_def ex_env_def)
  ultimately show ?thesis by simp
qed

lemma ex_env_points:
  "\<exists>fs'. colmap_points (ex_env n) fs ply bin txt = Inr fs'"
  by (simp add: colmap_points_def ex_env_def storePly_def)

lemma ex_env_reader:
  assumes "8 < n"
  shows "\<exists>s fs'. readColmapSceneInfo (ex_env n) fs path None True 8 = Inr (s, fs')"
proof -
  obtain cams where ci: "colmap_cam_infos (ex_env n) path None = Inr cams" and len: "length cams = n"
    using ex_env_cam_infos by blast
  obtain train test where sp: "colmap_split True 8 cams = Inr (train, test)"
    by (simp add: colmap_split_def)
  note idx = colmap_split_eval [OF sp]
  have "1 \<in> set (filter (\<lambda>i. \<not> (8::int) dvd int i) [0..<length cams])"
    using assms len by simp
  then have "cams ! 1 \<in> set train"
    unfolding idx(2) set_map by (rule imageI)
  then have ne: "train \<noteq> []" by auto
  have "\<exists>nn. getNerfppNorm train = Inr nn"
  proof (rule getNerfppNorm_returns [OF ne])
    fix c assume "c \<in> set train"
    then have "c \<in> set cams" using colmap_split_subset [OF sp] by auto
    then obtain q where "R c = transpose3 (qvec2rotmat (ex_env n) q)"
      using colmap_cam_infos_R [OF ci] by blast
    then show "det3 (transpose3 (R c)) \<noteq> 0"
      by (simp add: ex_env_def mat_id_def)
  qed
  then obtain nn where nn: "getNerfppNorm train = Inr nn" ..
  obtain fs' where "colmap_points (ex_env n) fs (path_join path ''sparse/0/points3D.ply'')
     (path_join path ''sparse/0/points3D.bin'') (path_join path ''sparse/0/points3D.txt'') = Inr fs'"
    using ex_env_points by blast
  then show ?thesis
    by (simp add: readColmapSceneInfo_def ci sp nn Let_def)
qed

lemma readColmapSceneInfo_split:
  assumes "readColmapSceneInfo ev fs path images True N = Inr (s, fs')"
  shows "\<exists>cam_infos. colmap_cam_infos ev path images = Inr cam_infos
     \<and> sorted (map image_name cam_infos)
     \<and> test_cameras s = map (nth cam_infos) (filter (\<lambda>i. N dvd int i) [0..<length cam_infos])
     \<and> train_cameras s = map (nth cam_infos) (filter (\<lambda>i. \<not> N dvd int i) [0..<length cam_infos])
     \<and> set (train_cameras s) \<inter> set (test_cameras s) = {}
     \<and> set (train_cameras s) \<union> set (test_cameras s) = set cam_infos
     \<and> int (length (test_cameras s)) = (int (length cam_infos) + \<bar>N\<bar> - 1) div \<bar>N\<bar>
     \<and> (length cam_infos = 16 \<and> N = 8 \<longrightarrow>
          test_cameras s = [cam_infos ! 0, cam_infos ! 8] \<and> length (train_cameras s) = 14)"
proof -
  from assms obtain cam_infos train test nn where
    ci: "colmap_cam_infos ev path images = Inr cam_infos" and
    sp: "colmap_split True N cam_infos = Inr (train, test)" and
    nn: "getNerfppNorm train = Inr nn" and
    tr: "train_cameras s = train" and te: "test_cameras s = test"
    by (auto simp: readColmapSceneInfo_def and_then_Inr Let_def)
  note idx = colmap_split_eval [OF sp]
  have "train \<noteq> []" by (rule getNerfppNorm_nonempty [OF nn])
  then have "cam_infos \<noteq> []" using idx(2) by auto
  then have N: "N \<noteq> 0" using sp by (auto simp: colmap_split_def)
  note d = colmap_cam_infos_distinct [OF ci]
  have "length cam_infos = 16 \<and> N = 8 \<longrightarrow>
          test = [cam_infos ! 0, cam_infos ! 8] \<and> length train = 14"
    using idx by (auto simp: sixteen_test sixteen_train)
  then show ?thesis
    using ci d(2) idx index_partition [OF d(1), of "\<lambda>i. N dvd int i"]
      count_multiples_int [OF N, of "length cam_infos"]
    by (simp add: tr te)
qed



lemma zip3_map: "zip3 (map f xs) (map g xs) (map h xs) = map (\<lambda>r. (f r, g r, h r)) xs"
  by (induction xs) auto

text \<open>What \<open>fetchPly\<close> reads back from a file that \<open>storePly\<close> has just written.\<close>

lemma fetchPly_storePly:
  assumes "length rgb = length xyz"
  shows "\<exists>fs'. storePly rnd fs path xyz rgb = Inr fs' \<and>
     fs' = fs(path \<mapsto> the (fs' path)) \<and>
     fetchPly fs' path =
       Inr \<lparr>points = map (\<lambda>(x, y, z). (rnd x, rnd y, rnd z)) xyz,
            colors = map (\<lambda>(r, g, b). (rnd r / 255, rnd g / 255, rnd b / 255)) rgb,
            normals = map (\<lambda>p. (rnd 0, rnd 0, rnd 0)) xyz\<rparr>"
  using assms
  apply (simp add: storePly_def fetchPly_def PlyData_read_def ply_element_def columns3_def
        ply_column_def vstack_T_def Let_def)
  apply (simp add: zip3_map case_prod_unfold)
  apply (intro conjI nth_equalityI)
  apply (auto simp: case_prod_unfold)
  done

lemma storePly_length_mismatch:
  "length rgb \<noteq> length xyz \<Longrightarrow> storePly rnd fs path xyz rgb = Inl ValueError"
  by (simp add: storePly_def)

text \<open>The error of the cast, and the cast of three numbers.\<close>

lemma rne_error: "\<bar>real_of_int (rne y) - y\<bar> \<le> 1 / 2"
proof -
  have "real_of_int \<lfloor>y\<rfloor> \<le> y" "y < real_of_int \<lfloor>y\<rfloor> + 1" by linarith+
  then show ?thesis by (auto simp: rne_def Let_def)
qed

lemma binary32_error:
  "\<bar>binary32 x - x\<bar> \<le> max (\<bar>x\<bar> / 2 ^ 24) (1 / 2 ^ 150)"
proof (cases "x = 0")
  case True
  then show ?thesis by (simp add: binary32_def)
next
  case False
  define e where "e = max (- 126) \<lfloor>log 2 \<bar>x\<bar>\<rfloor>"
  define ulp where "ulp = 2 powr real_of_int (e - 23)"
  have ulp: "0 < ulp" by (simp add: ulp_def)
  have b: "binary32 x = real_of_int (rne (x / ulp)) * ulp"
    using False by (simp add: binary32_def Let_def e_def ulp_def)
  have "\<bar>binary32 x - x\<bar> = \<bar>real_of_int (rne (x / ulp)) - x / ulp\<bar> * ulp"
  proof -
    have "binary32 x - x = (real_of_int (rne (x / ulp)) - x / ulp) * ulp"
      using ulp by (simp add: b field_simps)
    then show ?thesis using ulp by (simp add: abs_mult)
  qed
  also have "\<dots> \<le> 1 / 2 * ulp"
    using rne_error [of "x / ulp"] ulp by (intro mult_right_mono) simp_all
  also have "\<dots> = 2 powr real_of_int (e - 24)"
  proof -
    have "2 powr real_of_int (e - 23) = 2 powr (real_of_int (e - 24) + 1)" by simp
    also have "\<dots> = 2 powr real_of_int (e - 24) * 2" by (simp only: powr_add) simp
    finally show ?thesis by (simp add: ulp_def)
  qed
  finally have err: "\<bar>binary32 x - x\<bar> \<le> 2 powr real_of_int (e - 24)" .
  show ?thesis
  proof (cases "\<lfloor>log 2 \<bar>x\<bar>\<rfloor> \<le> - 126")
    case True
    then have "e = - 126" by (simp add: e_def)
    then have "2 powr real_of_int (e - 24) = 2 powr (- 150)" by simp
    also have "\<dots> = 1 / 2 ^ 150"
      by (simp add: powr_minus_divide)
    finally show ?thesis using err by simp
  next
    case False
    then have e: "e = \<lfloor>log 2 \<bar>x\<bar>\<rfloor>" by (simp add: e_def)
    have "real_of_int e \<le> log 2 \<bar>x\<bar>" unfolding e by linarith
    then have "2 powr real_of_int e \<le> 2 powr log 2 \<bar>x\<bar>" by simp
    also have "\<dots> = \<bar>x\<bar>" using \<open>x \<noteq> 0\<close> by simp
    finally have le: "2 powr real_of_int e \<le> \<bar>x\<bar>" .
    have "2 powr real_of_int (e - 24) = 2 powr (real_of_int e + (- 24))" by simp
    also have "\<dots> = 2 powr real_of_int e * 2 powr (- 24)" by (simp only: powr_add)
    also have "2 powr (- 24 :: real) = 1 / 2 ^ 24"
      by (simp add: powr_minus_divide)
    finally have "2 powr real_of_int (e - 24) = 2 powr real_of_int e / 2 ^ 24" by simp
    also have "\<dots> \<le> \<bar>x\<bar> / 2 ^ 24" using le by (simp add: divide_right_mono)
    finally show ?thesis using err by simp
  qed
qed

lemma binary32_at:
  assumes "2 powr real_of_int k \<le> \<bar>x\<bar>" and "\<bar>x\<bar> < 2 powr real_of_int (k + 1)" and "- 126 \<le> k"
  shows "binary32 x
    = real_of_int (rne (x / 2 powr real_of_int (k - 23))) * 2 powr real_of_int (k - 23)"
proof -
  have pos: "0 < \<bar>x\<bar>" using assms(1) by (smt (verit) powr_gt_zero)
  have "\<lfloor>log 2 \<bar>x\<bar>\<rfloor> = k"
  proof (rule floor_unique)
    from assms(1) pos show "real_of_int k \<le> log 2 \<bar>x\<bar>"
      by (simp add: le_log_iff)
    from assms(2) pos show "log 2 \<bar>x\<bar> < real_of_int k + 1"
      by (simp add: log_less_iff add.commute)
  qed
  with assms(3) pos show ?thesis
    by (simp add: binary32_def Let_def max_def)
qed

lemma binary32_third: "binary32 (1 / 3) = 11184811 / 33554432"
proof -
  have p: "2 powr real_of_int (- 2 - 23) = 1 / 33554432"
    by (simp add: powr_minus_divide)
  have "binary32 (1 / 3)
    = real_of_int (rne ((1 / 3) / 2 powr real_of_int (- 2 - 23))) * 2 powr real_of_int (- 2 - 23)"
    by (rule binary32_at) (simp_all add: powr_minus_divide)
  also have "\<dots> = real_of_int (rne (33554432 / 3)) / 33554432"
    unfolding p by simp
  also have "rne (33554432 / 3) = 11184811"
  proof -
    have "\<lfloor>33554432 / 3 :: real\<rfloor> = 11184810" by (rule floor_unique) simp_all
    then show ?thesis by (simp add: rne_def Let_def)
  qed
  finally show ?thesis by simp
qed

lemma binary32_one: "binary32 1 = 1"
proof -
  have "binary32 1
    = real_of_int (rne (1 / 2 powr real_of_int (0 - 23))) * 2 powr real_of_int (0 - 23)"
    by (rule binary32_at) simp_all
  also have "\<dots> = real_of_int (rne 8388608) / 8388608"
    by (simp add: powr_minus_divide)
  also have "rne 8388608 = 8388608" by (simp add: rne_def Let_def)
  finally show ?thesis by simp
qed

lemma binary32_two: "binary32 2 = 2"
proof -
  have "binary32 2
    = real_of_int (rne (2 / 2 powr real_of_int (1 - 23))) * 2 powr real_of_int (1 - 23)"
    by (rule binary32_at) simp_all
  also have "\<dots> = real_of_int (rne 8388608) / 4194304"
    by (simp add: powr_minus_divide)
  also have "rne 8388608 = 8388608" by (simp add: rne_def Let_def)
  finally show ?thesis by simp
qed

lemma ply_column_cases:
  "(nm \<in> fst ` set (columns e) \<and> (\<exists>col. ply_column e nm = Inr col))
   \<or> (nm \<notin> fst ` set (columns e) \<and> ply_column e nm = Inl ValueError)"
proof (cases "map_of (columns e) nm")
  case None
  then have "nm \<notin> fst ` set (columns e)" by (simp add: map_of_eq_None_iff)
  with None show ?thesis by (simp add: ply_column_def)
next
  case (Some col)
  then have "nm \<in> fst ` set (columns e)"
    by (metis map_of_eq_None_iff option.distinct(1))
  with Some show ?thesis by (simp add: ply_column_def)
qed

lemma columns3_cases:
  "columns3 e a b c = Inl ValueError
   \<or> ((\<exists>v. columns3 e a b c = Inr v) \<and> a \<in> fst ` set (columns e)
        \<and> b \<in> fst ` set (columns e) \<and> c \<in> fst ` set (columns e))"
  using ply_column_cases [of a e] ply_column_cases [of b e] ply_column_cases [of c e]
  by (auto simp: columns3_def vstack_T_def split: if_splits)

text \<open>A vertex file of another schema makes \<open>fetchPly\<close> raise.\<close>

lemma fetchPly_schema_mismatch:
  assumes "fs path = Some (PlyFile els)" and "\<not> has_vertex_fields els"
  shows "fetchPly fs path = Inl KeyError \<or> fetchPly fs path = Inl ValueError"
proof (cases "filter (\<lambda>e. el_name e = ''vertex'') els")
  case Nil
  then show ?thesis
    using assms(1) by (simp add: fetchPly_def PlyData_read_def ply_element_def)
next
  case (Cons e rest)
  have r: "fetchPly fs path =
     and_then (columns3 e ''x'' ''y'' ''z'') (\<lambda>positions.
     and_then (columns3 e ''red'' ''green'' ''blue'') (\<lambda>rgb.
     and_then (columns3 e ''nx'' ''ny'' ''nz'') (\<lambda>nrm.
       Inr \<lparr>points = positions,
            colors = map (\<lambda>(r, g, b). (r / 255, g / 255, b / 255)) rgb,
            normals = nrm\<rparr>)))"
    using assms(1) Cons by (simp add: fetchPly_def PlyData_read_def ply_element_def)
  from assms(2) Cons have missing:
    "\<not> (''x'' \<in> fst ` set (columns e) \<and> ''y'' \<in> fst ` set (columns e)
        \<and> ''z'' \<in> fst ` set (columns e) \<and> ''nx'' \<in> fst ` set (columns e)
        \<and> ''ny'' \<in> fst ` set (columns e) \<and> ''nz'' \<in> fst ` set (columns e)
        \<and> ''red'' \<in> fst ` set (columns e) \<and> ''green'' \<in> fst ` set (columns e)
        \<and> ''blue'' \<in> fst ` set (columns e))"
    by (simp add: has_vertex_fields_def)
  have "fetchPly fs path = Inl ValueError"
    using columns3_cases [of e "''x''" "''y''" "''z''"]
      columns3_cases [of e "''red''" "''green''" "''blue''"]
      columns3_cases [of e "''nx''" "''ny''" "''nz''"] missing
    unfolding r by (elim disjE conjE exE) simp_all
  then show ?thesis ..
qed

lemma colmap_points_existing:
  "fs ply \<noteq> None \<Longrightarrow> colmap_points ev fs ply bin txt = Inr fs"
  by (auto simp: colmap_points_def)

text \<open>The reader turns every failure of \<open>fetchPly\<close> into an absent point cloud.\<close>

lemma readColmapSceneInfo_bad_ply:
  assumes "readColmapSceneInfo ev fs path images eval N = Inr (s, fs')"
    and "fs (path_join path ''sparse/0/points3D.ply'') = Some (PlyFile els)"
    and "\<not> has_vertex_fields els"
  shows "point_cloud s = None \<and> fs' = fs"
proof -
  have pts: "colmap_points ev fs (path_join path ''sparse/0/points3D.ply'')
     (path_join path ''sparse/0/points3D.bin'') (path_join path ''sparse/0/points3D.txt'') = Inr fs"
    using assms(2) by (simp add: colmap_points_existing)
  have "fetchPly_or_None fs (path_join path ''sparse/0/points3D.ply'') = None"
    using fetchPly_schema_mismatch [of fs "path_join path ''sparse/0/points3D.ply''" els]
      assms(2,3)
    by (auto simp: fetchPly_or_None_def)
  with assms(1) pts show ?thesis
    by (auto simp: readColmapSceneInfo_def and_then_Inr Let_def)
qed

lemma fold_upd:
  "fold (\<lambda>t m. m(t \<mapsto> g t)) xs m0 = (\<lambda>k. if k \<in> set xs then Some (g k) else m0 k)"
  by (induction xs arbitrary: m0) (auto simp: fun_eq_iff)

lemma frame_times_Some:
  "map frame_time fr = map Some raw \<Longrightarrow> frame_times fr = Inr raw"
  unfolding frame_times_def
  by (induction fr arbitrary: raw) auto

text \<open>
  What \<open>read_timeline\<close> returns when every frame has a time and the largest time is not
  zero.
\<close>

lemma read_timeline_returns:
  assumes tr: "js (path_join path ''transforms_train.json'') = Inr train_json"
    and te: "js (path_join path ''transforms_test.json'') = Inr test_json"
    and raw: "map frame_time (frames train_json @ frames test_json) = map Some raw"
    and ne: "raw \<noteq> []" and nz: "Max (set raw) \<noteq> 0"
  shows "read_timeline js path =
     Inr ((\<lambda>k. if k \<in> set raw then Some (k / Max (set raw)) else None), Max (set raw))"
proof -
  let ?n = "length (frames train_json)"
  from raw have "map frame_time (frames train_json) @ map frame_time (frames test_json)
      = map Some raw" by simp
  then have "map frame_time (frames train_json) = map Some (take ?n raw)"
    and "map frame_time (frames test_json) = map Some (drop ?n raw)"
    by (simp_all add: append_eq_conv_conj take_map drop_map)
  then have a: "frame_times (frames train_json) = Inr (take ?n raw)"
    and b: "frame_times (frames test_json) = Inr (drop ?n raw)"
    by (simp_all add: frame_times_Some)
  let ?tl = "sort (remdups raw)"
  have s: "set ?tl = set raw" by simp
  from ne have "?tl \<noteq> []" by (metis s set_empty)
  then obtain t ts where tl: "?tl = t # ts" by (cases ?tl) auto
  have mx: "fold max ts t = Max (set raw)"
    using s by (simp add: tl Max.set_eq_fold [symmetric])
  have mp: "fold (\<lambda>time' m. m(time' \<mapsto> time' / Max (set raw))) ?tl Map.empty
      = (\<lambda>k. if k \<in> set raw then Some (k / Max (set raw)) else None)"
    by (simp add: fold_upd)
  show ?thesis
    unfolding read_timeline_def
    using nz mp by (simp add: tr te a b Let_def tl mx)
qed

lemma ran_if_Some: "ran (\<lambda>k. if k \<in> S then Some (g k) else None) = g ` S"
  by (auto simp: ran_def)

lemma mat_vec_inv3:
  assumes "det3 A \<noteq> 0"
  shows "mat_vec A (mat_vec (inv3 A) v) = v"
proof -
  obtain a b c d e f g h i where A: "A = ((a, b, c), (d, e, f), (g, h, i))"
    by (metis prod_cases3)
  obtain x y z where v: "v = (x, y, z)" by (metis prod_cases3)
  define dt where "dt = a * (e * i - f * h) - b * (d * i - f * g) + c * (d * h - e * g)"
  define n1 where "n1 = (e * i - f * h) * x + (c * h - b * i) * y + (b * f - c * e) * z"
  define n2 where "n2 = (f * g - d * i) * x + (a * i - c * g) * y + (c * d - a * f) * z"
  define n3 where "n3 = (d * h - e * g) * x + (b * g - a * h) * y + (a * e - b * d) * z"
  have dt: "dt \<noteq> 0" using assms by (simp add: A dt_def)
  have w: "mat_vec (inv3 A) v = (n1 / dt, n2 / dt, n3 / dt)"
    by (simp add: A v Let_def dt_def n1_def n2_def n3_def add_divide_distrib)
  have p1: "a * n1 + b * n2 + c * n3 = dt * x"
    by (simp add: n1_def n2_def n3_def dt_def algebra_simps)
  have p2: "d * n1 + e * n2 + f * n3 = dt * y"
    by (simp add: n1_def n2_def n3_def dt_def algebra_simps)
  have p3: "g * n1 + h * n2 + i * n3 = dt * z"
    by (simp add: n1_def n2_def n3_def dt_def algebra_simps)
  have q: "\<And>p q r s. p * (n1 / dt) + q * (n2 / dt) + r * (n3 / dt) = (p * n1 + q * n2 + r * n3) / dt"
    by (simp add: add_divide_distrib)
  show ?thesis
    unfolding w unfolding A v
    by (simp only: mat_vec.simps vdot.simps q p1 p2 p3) (simp add: dt)
qed

lemma map_result_nth:
  "map_result f xs = Inr ys \<Longrightarrow> i < length xs \<Longrightarrow> f (xs ! i) = Inr (ys ! i)"
proof (induction xs arbitrary: ys i)
  case Nil
  then show ?case by simp
next
  case (Cons x xs)
  then show ?case
    by (cases i) (auto simp: and_then_Inr)
qed

lemma vdot_vadd: "vdot r (vadd u v) = vdot r u + vdot r v"
  by (cases r, cases u, cases v) (simp add: algebra_simps)

lemma vdot_vsub: "vdot r (vsub u v) = vdot r u - vdot r v"
  by (cases r, cases u, cases v) (simp add: algebra_simps)

lemma vdot_vscale: "vdot r (vscale k v) = k * vdot r v"
  by (cases r, cases v) (simp add: algebra_simps)

lemma mat_vec_vadd: "mat_vec Q (vadd u v) = vadd (mat_vec Q u) (mat_vec Q v)"
  by (cases Q rule: prod_cases3) (simp add: vdot_vadd)

lemma mat_vec_vsub: "mat_vec Q (vsub u v) = vsub (mat_vec Q u) (mat_vec Q v)"
  by (cases Q rule: prod_cases3) (simp add: vdot_vsub)

lemma mat_vec_vscale: "mat_vec Q (vscale k v) = vscale k (mat_vec Q v)"
  by (cases Q rule: prod_cases3) (simp add: vdot_vscale)

lemma vsub_vadd_cancel: "vsub (vadd m w) m = w"
  by (cases m, cases w) simp

lemma rotation_preserves_norm:
  assumes "is_rotation Q"
  shows "vnorm (mat_vec Q v) = vnorm v"
proof -
  obtain a b c d e f g h i where Q: "Q = ((a, b, c), (d, e, f), (g, h, i))"
    by (metis prod_cases3)
  obtain x y z where v: "v = (x, y, z)" by (metis prod_cases3)
  from assms have
    e11: "a * a + d * d + g * g = 1" and e22: "b * b + e * e + h * h = 1" and
    e33: "c * c + f * f + i * i = 1" and e12: "a * b + d * e + g * h = 0" and
    e13: "a * c + d * f + g * i = 0" and e23: "b * c + e * f + h * i = 0"
    by (simp_all add: is_rotation_def Q mat_id_def Let_def)
  have "vdot (mat_vec Q v) (mat_vec Q v) =
      x * x * (a * a + d * d + g * g) + y * y * (b * b + e * e + h * h)
      + z * z * (c * c + f * f + i * i) + 2 * x * y * (a * b + d * e + g * h)
      + 2 * x * z * (a * c + d * f + g * i) + 2 * y * z * (b * c + e * f + h * i)"
    by (simp add: Q v algebra_simps)
  also have "\<dots> = vdot v v"
    by (simp only: e11 e22 e33 e12 e13 e23) (simp add: v)
  finally show ?thesis by (simp add: vnorm_def)
qed

lemma foldr_vadd_rotated:
  "foldr vadd (map (rotate_about Q m) cs) vzero =
     vadd (vscale (real (length cs)) m)
       (mat_vec Q (vsub (foldr vadd cs vzero) (vscale (real (length cs)) m)))"
proof (induction cs)
  case Nil
  obtain a b c d e f g h i where Q: "Q = ((a, b, c), (d, e, f), (g, h, i))"
    by (metis prod_cases3)
  show ?case by (cases m) (simp add: vzero_def Q)
next
  case (Cons c cs)
  let ?n = "real (length cs)"
  let ?S = "foldr vadd cs vzero"
  have "foldr vadd (map (rotate_about Q m) (c # cs)) vzero =
      vadd (vadd m (mat_vec Q (vsub c m)))
        (vadd (vscale ?n m) (mat_vec Q (vsub ?S (vscale ?n m))))"
    by (simp add: Cons.IH rotate_about_def)
  also have "\<dots> = vadd (vadd m (vscale ?n m))
        (vadd (mat_vec Q (vsub c m)) (mat_vec Q (vsub ?S (vscale ?n m))))"
    by (cases m, cases "mat_vec Q (vsub c m)", cases "mat_vec Q (vsub ?S (vscale ?n m))")
       (simp add: algebra_simps)
  also have "vadd (mat_vec Q (vsub c m)) (mat_vec Q (vsub ?S (vscale ?n m)))
      = mat_vec Q (vadd (vsub c m) (vsub ?S (vscale ?n m)))"
    by (simp add: mat_vec_vadd)
  also have "vadd (vsub c m) (vsub ?S (vscale ?n m))
      = vsub (vadd c ?S) (vscale (real (length (c # cs))) m)"
    by (cases m, cases c, cases ?S) (simp add: algebra_simps)
  also have "vadd m (vscale ?n m) = vscale (real (length (c # cs))) m"
    by (cases m) (simp add: algebra_simps)
  finally show ?case by simp
qed

lemma vmean_rotated:
  assumes "cs \<noteq> []"
  shows "vmean (map (rotate_about Q (vmean cs)) cs) = vmean cs"
proof -
  let ?n = "real (length cs)"
  let ?S = "foldr vadd cs vzero"
  have n: "?n \<noteq> 0" using assms by simp
  have z: "vsub ?S (vscale ?n (vmean cs)) = vzero"
    using n by (cases ?S) (simp add: vmean_def vzero_def)
  have q0: "mat_vec Q vzero = vzero"
    by (cases Q rule: prod_cases3) (auto simp: vzero_def split: prod.splits)
  have "foldr vadd (map (rotate_about Q (vmean cs)) cs) vzero
      = vadd (vscale ?n (vmean cs)) (mat_vec Q vzero)"
    by (simp only: foldr_vadd_rotated z)
  also have "\<dots> = vscale ?n (vmean cs)"
    unfolding q0 by (cases "vscale ?n (vmean cs)") (simp add: vzero_def)
  finally have "foldr vadd (map (rotate_about Q (vmean cs)) cs) vzero = vscale ?n (vmean cs)" .
  then show ?thesis
    using n by (cases "vmean cs") (simp add: vmean_def [of "map _ _"])
qed


lemma get_center_and_diag_eq:
  "get_center_and_diag (c # rest) =
     Inr (vmean (c # rest),
          fold max (map (\<lambda>x. vnorm (vsub x (vmean (c # rest)))) rest)
            (vnorm (vsub c (vmean (c # rest)))))"
  by (simp add: get_center_and_diag_def Let_def)

lemma get_center_and_diag_rotated:
  assumes "is_rotation Q" and "get_center_and_diag cs = Inr (center, diagonal)"
  shows "get_center_and_diag (map (rotate_about Q (vmean cs)) cs) = Inr (center, diagonal)"
proof -
  from assms(2) obtain c rest where cs: "cs = c # rest"
    by (cases cs) (auto simp: get_center_and_diag_def)
  define m where "m = vmean cs"
  define rot where "rot = rotate_about Q m"
  have m: "vmean (map rot cs) = m"
    unfolding rot_def m_def by (rule vmean_rotated) (simp add: cs)
  have d: "\<And>x. vnorm (vsub (rot x) m) = vnorm (vsub x m)"
    by (simp add: rot_def rotate_about_def vsub_vadd_cancel rotation_preserves_norm [OF assms(1)])
  have "get_center_and_diag (map rot cs) =
      Inr (vmean (map rot cs),
           fold max (map (\<lambda>x. vnorm (vsub x (vmean (map rot cs)))) (map rot rest))
             (vnorm (vsub (rot c) (vmean (map rot cs)))))"
    unfolding cs list.map by (rule get_center_and_diag_eq)
  also have "\<dots> = Inr (m, fold max (map (\<lambda>x. vnorm (vsub x m)) rest) (vnorm (vsub c m)))"
    unfolding m by (simp add: d comp_def)
  also have "\<dots> = get_center_and_diag cs"
    unfolding m_def cs by (rule get_center_and_diag_eq [symmetric])
  finally show ?thesis
    by (simp add: assms(2) rot_def m_def)
qed

lemma get_center_and_diag_Max:
  assumes "get_center_and_diag cs = Inr (center, diagonal)"
  shows "center = vmean cs" and "diagonal = Max ((\<lambda>c. vnorm (vsub c (vmean cs))) ` set cs)"
    and "cs \<noteq> []"
proof -
  from assms obtain c rest where cs: "cs = c # rest"
    by (cases cs) (auto simp: get_center_and_diag_def)
  define m where "m = vmean cs"
  from assms have e: "center = m"
     "diagonal = fold max (map (\<lambda>x. vnorm (vsub x m)) rest) (vnorm (vsub c m))"
    unfolding m_def cs get_center_and_diag_eq by auto
  show "center = vmean cs" using e(1) by (simp add: m_def)
  show "cs \<noteq> []" by (simp add: cs)
  let ?d = "\<lambda>c. vnorm (vsub c m)"
  have "Max (?d ` set cs) = Max (set (?d c # map ?d rest))" by (simp add: cs)
  also have "\<dots> = fold max (map ?d rest) (?d c)" by (rule Max.set_eq_fold)
  finally show "diagonal = Max ((\<lambda>c. vnorm (vsub c (vmean cs))) ` set cs)"
    using e(2) by (simp add: m_def)
qed

lemma cam_center_origin:
  assumes "cam_center cam = Inr c"
  shows "vadd (mat_vec (transpose3 (R cam)) c) (T cam) = vzero"
    and "\<exists>C2W. linalg_inv (getWorld2View2 (R cam) (T cam)) = Inr C2W \<and> c = snd C2W"
proof -
  let ?A = "transpose3 (R cam)"
  from assms have dt: "det3 ?A \<noteq> 0" and c: "c = vneg (mat_vec (inv3 ?A) (T cam))"
    by (auto simp: cam_center_def getWorld2View2_def split: if_splits)
  have neg: "\<And>A v. mat_vec A (vneg v) = vneg (mat_vec A v)"
  proof -
    fix A :: mat3 and v :: vec3
    have "vneg v = vscale (- 1) v" by (cases v) simp
    then have "mat_vec A (vneg v) = vscale (- 1) (mat_vec A v)" by (simp add: mat_vec_vscale)
    also have "\<dots> = vneg (mat_vec A v)" by (cases "mat_vec A v") simp
    finally show "mat_vec A (vneg v) = vneg (mat_vec A v)" .
  qed
  have "mat_vec ?A c = vneg (mat_vec ?A (mat_vec (inv3 ?A) (T cam)))"
    unfolding c by (rule neg)
  also have "\<dots> = vneg (T cam)" by (simp add: mat_vec_inv3 [OF dt])
  finally show "vadd (mat_vec ?A c) (T cam) = vzero"
    by (cases "T cam") (simp add: vzero_def)
  show "\<exists>C2W. linalg_inv (getWorld2View2 (R cam) (T cam)) = Inr C2W \<and> c = snd C2W"
    using assms by (auto simp: cam_center_def and_then_Inr)
qed

text \<open>
  What \<open>getNerfppNorm\<close> computes, and that it computes the same radius for camera centres
  rotated about their centroid.
\<close>

lemma getNerfppNorm_characterised:
  assumes "getNerfppNorm cams = Inr nn"
  shows "\<exists>cs. cam_centers cams = Inr cs \<and> cs \<noteq> [] \<and> length cs = length cams
     \<and> (\<forall>i < length cams.
           (\<exists>C2W. linalg_inv (getWorld2View2 (R (cams ! i)) (T (cams ! i))) = Inr C2W
                  \<and> cs ! i = snd C2W)
           \<and> vadd (mat_vec (transpose3 (R (cams ! i))) (cs ! i)) (T (cams ! i)) = vzero)
     \<and> translate nn = vneg (vmean cs)
     \<and> radius nn = Max ((\<lambda>c. vnorm (vsub c (vmean cs))) ` set cs) * 1.1
     \<and> (\<forall>Q cams'. is_rotation Q
            \<and> cam_centers cams' = Inr (map (rotate_about Q (vmean cs)) cs) \<longrightarrow>
          (\<exists>nn'. getNerfppNorm cams' = Inr nn' \<and> radius nn' = radius nn))"
proof -
  from assms obtain cs center diagonal where
    cs: "cam_centers cams = Inr cs" and
    cd: "get_center_and_diag cs = Inr (center, diagonal)" and
    nn: "nn = \<lparr>translate = vneg center, radius = diagonal * 1.1\<rparr>"
    by (auto simp: getNerfppNorm_def and_then_Inr)
  note mx = get_center_and_diag_Max [OF cd]
  have len: "length cs = length cams"
    using cs by (simp add: cam_centers_def map_result_length)
  have each: "\<forall>i < length cams.
           (\<exists>C2W. linalg_inv (getWorld2View2 (R (cams ! i)) (T (cams ! i))) = Inr C2W
                  \<and> cs ! i = snd C2W)
           \<and> vadd (mat_vec (transpose3 (R (cams ! i))) (cs ! i)) (T (cams ! i)) = vzero"
  proof (intro allI impI)
    fix i assume "i < length cams"
    then have "cam_center (cams ! i) = Inr (cs ! i)"
      using cs by (simp add: cam_centers_def map_result_nth)
    then show "(\<exists>C2W. linalg_inv (getWorld2View2 (R (cams ! i)) (T (cams ! i))) = Inr C2W
                  \<and> cs ! i = snd C2W)
           \<and> vadd (mat_vec (transpose3 (R (cams ! i))) (cs ! i)) (T (cams ! i)) = vzero"
      using cam_center_origin [of "cams ! i" "cs ! i"] by blast
  qed
  have rot: "\<forall>Q cams'. is_rotation Q
            \<and> cam_centers cams' = Inr (map (rotate_about Q (vmean cs)) cs) \<longrightarrow>
          (\<exists>nn'. getNerfppNorm cams' = Inr nn' \<and> radius nn' = radius nn)"
  proof (intro allI impI)
    fix Q cams'
    assume a: "is_rotation Q \<and> cam_centers cams' = Inr (map (rotate_about Q (vmean cs)) cs)"
    then have "get_center_and_diag (map (rotate_about Q (vmean cs)) cs) = Inr (center, diagonal)"
      using get_center_and_diag_rotated [OF _ cd] by blast
    with a have "getNerfppNorm cams' = Inr \<lparr>translate = vneg center, radius = diagonal * 1.1\<rparr>"
      by (simp add: getNerfppNorm_def)
    then show "\<exists>nn'. getNerfppNorm cams' = Inr nn' \<and> radius nn' = radius nn"
      by (simp add: nn)
  qed
  from cs mx len each rot show ?thesis
    by (simp add: nn)
qed

lemma ex_cam_at_center: "cam_center (ex_cam_at c) = Inr c"
  by (cases c) (simp add: cam_center_def ex_cam_at_def getWorld2View2_def mat_id_def)

lemma ex_cam_at_centers: "cam_centers (map ex_cam_at cs) = Inr cs"
  unfolding cam_centers_def
  by (induction cs) (simp_all add: ex_cam_at_center)

lemma foldr_vadd_sums:
  "foldr vadd cs vzero = (\<Sum>p\<leftarrow>cs. fst p, \<Sum>p\<leftarrow>cs. fst (snd p), \<Sum>p\<leftarrow>cs. snd (snd p))"
  by (induction cs) (auto simp: vzero_def)

lemma vmean_sums:
  "vmean cs = ((\<Sum>p\<leftarrow>cs. fst p) / real (length cs), (\<Sum>p\<leftarrow>cs. fst (snd p)) / real (length cs),
               (\<Sum>p\<leftarrow>cs. snd (snd p)) / real (length cs))"
  by (simp add: vmean_def foldr_vadd_sums)

lemma origin_explicit:
  assumes "vadd (mat_vec (transpose3 Rm) c) t = vzero"
  shows "case (Rm, t, c) of
           (((a, b, c), (d, e, f), (g, h, k)), (t1, t2, t3), (x, y, z)) \<Rightarrow>
             a * x + d * y + g * z + t1 = 0 \<and> b * x + e * y + h * z + t2 = 0
             \<and> c * x + f * y + k * z + t3 = 0"
  using assms
  by (cases Rm rule: prod_cases3; cases t; cases c) (auto simp: vzero_def split: prod.splits)

text \<open>
  The same with the centroid and the distances written out in coordinates.
\<close>

lemma getNerfppNorm_explicit:
  assumes "getNerfppNorm cams = Inr nn"
  shows "\<exists>cs. cam_centers cams = Inr cs \<and> cs \<noteq> [] \<and> length cs = length cams
     \<and> (\<forall>i < length cams.
           (\<exists>C2W. linalg_inv (getWorld2View2 (R (cams ! i)) (T (cams ! i))) = Inr C2W
                  \<and> cs ! i = snd C2W)
           \<and> (case (R (cams ! i), T (cams ! i), cs ! i) of
                (((a, b, c), (d, e, f), (g, h, k)), (t1, t2, t3), (x, y, z)) \<Rightarrow>
                  a * x + d * y + g * z + t1 = 0 \<and> b * x + e * y + h * z + t2 = 0
                  \<and> c * x + f * y + k * z + t3 = 0))
     \<and> (let n = real (length cs);
             mx = (\<Sum>p\<leftarrow>cs. fst p) / n;
             my = (\<Sum>p\<leftarrow>cs. fst (snd p)) / n;
             mz = (\<Sum>p\<leftarrow>cs. snd (snd p)) / n
         in translate nn = (- mx, - my, - mz)
            \<and> radius nn
                = Max ((\<lambda>(x, y, z). sqrt ((x - mx)\<^sup>2 + (y - my)\<^sup>2 + (z - mz)\<^sup>2)) ` set cs) * 1.1
            \<and> (\<forall>Q cams'. is_rotation Q
                   \<and> cam_centers cams' = Inr (map (rotate_about Q (mx, my, mz)) cs) \<longrightarrow>
                 (\<exists>nn'. getNerfppNorm cams' = Inr nn' \<and> radius nn' = radius nn)))"
proof -
  from getNerfppNorm_characterised [OF assms] obtain cs where
    cs: "cam_centers cams = Inr cs" "cs \<noteq> []" "length cs = length cams" and
    each: "\<forall>i < length cams.
           (\<exists>C2W. linalg_inv (getWorld2View2 (R (cams ! i)) (T (cams ! i))) = Inr C2W
                  \<and> cs ! i = snd C2W)
           \<and> vadd (mat_vec (transpose3 (R (cams ! i))) (cs ! i)) (T (cams ! i)) = vzero" and
    tr: "translate nn = vneg (vmean cs)" and
    rad: "radius nn = Max ((\<lambda>c. vnorm (vsub c (vmean cs))) ` set cs) * 1.1" and
    rot: "\<forall>Q cams'. is_rotation Q
            \<and> cam_centers cams' = Inr (map (rotate_about Q (vmean cs)) cs) \<longrightarrow>
          (\<exists>nn'. getNerfppNorm cams' = Inr nn' \<and> radius nn' = radius nn)"
    by blast
  define mx where "mx = (\<Sum>p\<leftarrow>cs. fst p) / real (length cs)"
  define my where "my = (\<Sum>p\<leftarrow>cs. fst (snd p)) / real (length cs)"
  define mz where "mz = (\<Sum>p\<leftarrow>cs. snd (snd p)) / real (length cs)"
  have m: "vmean cs = (mx, my, mz)"
    by (simp add: vmean_sums mx_def my_def mz_def)
  have d: "(\<lambda>c. vnorm (vsub c (vmean cs)))
             = (\<lambda>(x, y, z). sqrt ((x - mx)\<^sup>2 + (y - my)\<^sup>2 + (z - mz)\<^sup>2))"
    unfolding m by (auto simp: fun_eq_iff vnorm_def power2_eq_square)
  have each': "\<forall>i < length cams.
           (\<exists>C2W. linalg_inv (getWorld2View2 (R (cams ! i)) (T (cams ! i))) = Inr C2W
                  \<and> cs ! i = snd C2W)
           \<and> (case (R (cams ! i), T (cams ! i), cs ! i) of
                (((a, b, c), (d, e, f), (g, h, k)), (t1, t2, t3), (x, y, z)) \<Rightarrow>
                  a * x + d * y + g * z + t1 = 0 \<and> b * x + e * y + h * z + t2 = 0
                  \<and> c * x + f * y + k * z + t3 = 0)"
  proof (intro allI impI)
    fix i assume i: "i < length cams"
    from each i have
      a: "\<exists>C2W. linalg_inv (getWorld2View2 (R (cams ! i)) (T (cams ! i))) = Inr C2W
                  \<and> cs ! i = snd C2W" and
      b: "vadd (mat_vec (transpose3 (R (cams ! i))) (cs ! i)) (T (cams ! i)) = vzero"
      by simp_all
    from a origin_explicit [OF b]
    show "(\<exists>C2W. linalg_inv (getWorld2View2 (R (cams ! i)) (T (cams ! i))) = Inr C2W
                  \<and> cs ! i = snd C2W)
           \<and> (case (R (cams ! i), T (cams ! i), cs ! i) of
                (((a, b, c), (d, e, f), (g, h, k)), (t1, t2, t3), (x, y, z)) \<Rightarrow>
                  a * x + d * y + g * z + t1 = 0 \<and> b * x + e * y + h * z + t2 = 0
                  \<and> c * x + f * y + k * z + t3 = 0)"
      by (rule conjI)
  qed
  have tr': "translate nn = (- mx, - my, - mz)"
    unfolding tr m by simp
  have rad': "radius nn
      = Max ((\<lambda>(x, y, z). sqrt ((x - mx)\<^sup>2 + (y - my)\<^sup>2 + (z - mz)\<^sup>2)) ` set cs) * 1.1"
    unfolding rad d ..
  show ?thesis
    apply (rule exI [of _ cs])
    apply (simp only: Let_def mx_def [symmetric] my_def [symmetric] mz_def [symmetric])
    apply (intro conjI)
          apply (rule cs(1))
         apply (rule cs(2))
        apply (rule cs(3))
       apply (rule each')
      apply (rule tr')
     apply (rule rad')
    apply (rule rot [unfolded m])
    done
qed

lemma ex_cam_turned_center: "cam_center (ex_cam_turned c) = Inr c"
  by (cases c) (simp add: cam_center_def ex_cam_turned_def ex_quarter_turn_def getWorld2View2_def)

lemma sqrt_16_9: "sqrt (16 / 9) = 4 / 3"
  apply (rule real_sqrt_unique)
  apply (simp_all add: power2_eq_square)
  done

lemma sqrt_13_9: "sqrt (13 / 9) \<le> 4 / 3"
proof -
  have "sqrt (13 / 9) \<le> sqrt (16 / 9)" by simp
  then show ?thesis by (simp only: sqrt_16_9)
qed





lemma readBricsCamera_props:
  assumes "readBricsCamera ev datadir frs cam_ids start_t num_t (cam_idx, k) = Inr (nm, cam)"
  shows "time cam = real k" and "image' cam \<noteq> None" and "mask cam \<noteq> None"
    and "\<exists>img. image' cam = Some img \<and> width cam = int (size_w img)
           \<and> height cam = int (size_h img)"
  using assms
  by (auto simp: readBricsCamera_def Let_def and_then_Inr)

lemma readBrics_cameras:
  assumes "readBrics ev bv datadir split start_t num_t = Inr (cams, d)" and "c \<in> set cams"
  shows "\<exists>k < nat num_t. time c = real k" and "image' c \<noteq> None" and "mask c \<noteq> None"
proof -
  from assms(1) obtain frs cam_ids named where
    named: "map_result (readBricsCamera ev datadir frs cam_ids start_t num_t)
                 (concat (map (\<lambda>cam_idx. map (\<lambda>k. (cam_idx, k)) [0..<nat num_t])
                            [0..<length cam_ids])) = Inr named" and
    cams: "cams = map snd named"
    by (auto simp: readBrics_def and_then_Inr split: if_splits)
  from assms(2) obtain nm where "(nm, c) \<in> set named" by (auto simp: cams)
  from map_result_all [OF named this] obtain cam_idx k where
    k: "k < nat num_t" and
    r: "readBricsCamera ev datadir frs cam_ids start_t num_t (cam_idx, k) = Inr (nm, c)"
    by auto
  note p = readBricsCamera_props [OF r]
  from k p(1) show "\<exists>k < nat num_t. time c = real k" by blast
  from p show "image' c \<noteq> None" and "mask c \<noteq> None" by simp_all
qed



lemma readBricsSceneInfo_Inr:
  assumes "readBricsSceneInfo ev bv fs path num_pts start_t num_t init create_video_cams
             = Inr (s, fs')"
  shows "\<exists>train d test d' carved vs nn.
      readBrics ev bv path ''train'' start_t num_t = Inr (train, d)
      \<and> readBrics ev bv path ''test'' start_t num_t = Inr (test, d')
      \<and> init = ''hull''
      \<and> hull_points bv (brics_grid ev) train = Inr carved
      \<and> storePly (f4 ev) fs (tmp_ply_path bv) (brics_subsample bv num_pts carved)
            (brics_colors bv (length (brics_subsample bv num_pts carved))) = Inr fs'
      \<and> (if create_video_cams then brics_video_cameras bv train d num_t else Inr []) = Inr vs
      \<and> getNerfppNorm train = Inr nn
      \<and> s = \<lparr>point_cloud = Some \<lparr>points = brics_subsample bv num_pts carved,
                   colors = brics_colors bv (length (brics_subsample bv num_pts carved)),
                   normals = map (\<lambda>p. (0, 0, 0)) (brics_subsample bv num_pts carved)\<rparr>,
              train_cameras = train, test_cameras = test, video_cameras = vs,
              nerf_normalization = nn, ply_path = tmp_ply_path bv,
              maxtime = real_of_int num_t\<rparr>"
proof -
  have init: "init = ''hull''"
  proof (rule ccontr)
    assume "init \<noteq> ''hull''"
    with assms show False
      by (auto simp: readBricsSceneInfo_def and_then_Inr)
  qed
  from assms obtain train d test d' carved vs nn where
    "readBrics ev bv path ''train'' start_t num_t = Inr (train, d)"
    "readBrics ev bv path ''test'' start_t num_t = Inr (test, d')"
    "hull_points bv (brics_grid ev) train = Inr carved"
    "storePly (f4 ev) fs (tmp_ply_path bv) (brics_subsample bv num_pts carved)
            (brics_colors bv (length (brics_subsample bv num_pts carved))) = Inr fs'"
    "(if create_video_cams then brics_video_cameras bv train d num_t else Inr []) = Inr vs"
    "getNerfppNorm train = Inr nn"
    "s = \<lparr>point_cloud = Some \<lparr>points = brics_subsample bv num_pts carved,
                   colors = brics_colors bv (length (brics_subsample bv num_pts carved)),
                   normals = map (\<lambda>p. (0, 0, 0)) (brics_subsample bv num_pts carved)\<rparr>,
              train_cameras = train, test_cameras = test, video_cameras = vs,
              nerf_normalization = nn, ply_path = tmp_ply_path bv,
              maxtime = real_of_int num_t\<rparr>"
    unfolding readBricsSceneInfo_def init
    by (auto simp: and_then_Inr Let_def)
  with init show ?thesis by blast
qed

lemma readBricsSceneInfo_returns:
  assumes "readBrics ev bv path ''train'' start_t num_t = Inr (train, d)"
    and "readBrics ev bv path ''test'' start_t num_t = Inr (test, d')"
    and "hull_points bv (brics_grid ev) train = Inr carved"
    and "storePly (f4 ev) fs (tmp_ply_path bv) (brics_subsample bv num_pts carved)
            (brics_colors bv (length (brics_subsample bv num_pts carved))) = Inr fs'"
    and "(if create_video_cams then brics_video_cameras bv train d num_t else Inr []) = Inr vs"
    and "getNerfppNorm train = Inr nn"
  shows "readBricsSceneInfo ev bv fs path num_pts start_t num_t ''hull'' create_video_cams =
     Inr (\<lparr>point_cloud = Some \<lparr>points = brics_subsample bv num_pts carved,
                   colors = brics_colors bv (length (brics_subsample bv num_pts carved)),
                   normals = map (\<lambda>p. (0, 0, 0)) (brics_subsample bv num_pts carved)\<rparr>,
              train_cameras = train, test_cameras = test, video_cameras = vs,
              nerf_normalization = nn, ply_path = tmp_ply_path bv,
              maxtime = real_of_int num_t\<rparr>, fs')"
  unfolding readBricsSceneInfo_def
  by (simp add: assms Let_def)

lemma map_result_const:
  "(\<And>x. x \<in> set xs \<Longrightarrow> f x = Inr (g x)) \<Longrightarrow> map_result f xs = Inr (map g xs)"
  by (induction xs) auto

lemma carve_camera_outside:
  assumes "image' cam \<noteq> None" and "mask cam \<noteq> None"
    and "\<forall>p \<in> set grid. \<not> in_image bv cam p" and "length c = length grid"
  shows "carve_camera bv grid c cam = Inr c"
proof -
  from assms(1,2) obtain img cam_mask where
    img: "image' cam = Some img" and msk: "mask cam = Some cam_mask" by auto
  have "map_result
           (\<lambda>(p, n). case pix bv cam p of (u, v) \<Rightarrow>
              if 0 \<le> u \<and> u < int (size_w img) \<and> 0 \<le> v \<and> v < int (size_h img)
              then and_then (mask_at cam_mask v u) (\<lambda>m. Inr (if 0 < m then n + 1 else n))
              else Inr n)
           (zip grid c) = Inr (map snd (zip grid c))"
  proof (rule map_result_const)
    fix x assume "x \<in> set (zip grid c)"
    then obtain n where "grid ! n = fst x" "n < length grid" by (auto simp: in_set_zip)
    then have "fst x \<in> set grid" by (metis nth_mem)
    with assms(3) have "\<not> in_image bv cam (fst x)" by blast
    then show "(case x of (p, n) \<Rightarrow> case pix bv cam p of (u, v) \<Rightarrow>
              if 0 \<le> u \<and> u < int (size_w img) \<and> 0 \<le> v \<and> v < int (size_h img)
              then and_then (mask_at cam_mask v u) (\<lambda>m. Inr (if 0 < m then n + 1 else n))
              else Inr n) = Inr (snd x)"
      by (cases x) (auto simp: in_image_def img split: prod.splits)
  qed
  then show ?thesis
    using assms(4) by (simp add: carve_camera_def img msk Let_def)
qed

lemma carve_outside:
  assumes "\<forall>cam \<in> set cams. image' cam \<noteq> None \<and> mask cam \<noteq> None
              \<and> (\<forall>p \<in> set grid. \<not> in_image bv cam p)"
    and "length c = length grid"
  shows "carve bv grid c cams = Inr c"
  using assms
  by (induction cams) (simp_all add: carve_camera_outside)

lemma hull_points_outside:
  assumes "\<forall>cam \<in> set (first_frame_cameras train). image' cam \<noteq> None \<and> mask cam \<noteq> None
              \<and> (\<forall>p \<in> set grid. \<not> in_image bv cam p)"
  shows "hull_points bv grid train = Inr []"
proof -
  have "carve bv grid (replicate (length grid) 1) (first_frame_cameras train)
      = Inr (replicate (length grid) 1)"
    by (rule carve_outside [OF assms]) simp
  then have "hull_mask bv grid train = Inr (replicate (length grid) False)"
    by (simp add: hull_mask_def)
  moreover have "filter snd (zip grid (replicate (length grid) False)) = []"
    by (auto simp: filter_empty_conv dest: set_zip_rightD)
  ultimately show ?thesis by (simp add: hull_points_def)
qed


lemma brics_subsample_Nil: "brics_subsample bv num_pts [] = []"
  by (simp add: brics_subsample_def)

lemma brics_colors_0: "brics_colors bv 0 = []"
  by (simp add: brics_colors_def)

lemma storePly_Nil: "\<exists>fs'. storePly rnd fs path [] [] = Inr fs'"
  by (simp add: storePly_def)

text \<open>What the reader does when the whole grid projects outside every first-frame image.\<close>

lemma readBricsSceneInfo_outside:
  assumes tr: "readBrics ev bv path ''train'' start_t num_t = Inr (train, d)"
    and out: "\<forall>cam \<in> set (first_frame_cameras train). \<forall>p \<in> set (brics_grid ev).
                \<not> in_image bv cam p"
  shows "hull_points bv (brics_grid ev) train = Inr []
     \<and> (\<forall>s fs'. readBricsSceneInfo ev bv fs path num_pts start_t num_t init cvc = Inr (s, fs') \<longrightarrow>
          point_cloud s = Some \<lparr>points = [], colors = [], normals = []\<rparr>)
     \<and> (\<forall>test d' vs nn.
          readBrics ev bv path ''test'' start_t num_t = Inr (test, d')
          \<and> (if cvc then brics_video_cameras bv train d num_t else Inr []) = Inr vs
          \<and> getNerfppNorm train = Inr nn \<longrightarrow>
          (\<exists>fs'. readBricsSceneInfo ev bv fs path num_pts start_t num_t ''hull'' cvc =
             Inr (\<lparr>point_cloud = Some \<lparr>points = [], colors = [], normals = []\<rparr>,
                   train_cameras = train, test_cameras = test, video_cameras = vs,
                   nerf_normalization = nn, ply_path = tmp_ply_path bv,
                   maxtime = real_of_int num_t\<rparr>, fs')))"
proof -
  have cams: "\<forall>cam \<in> set (first_frame_cameras train). image' cam \<noteq> None \<and> mask cam \<noteq> None
              \<and> (\<forall>p \<in> set (brics_grid ev). \<not> in_image bv cam p)"
    using out readBrics_cameras(2,3) [OF tr]
    by (auto simp: first_frame_cameras_def)
  have hp: "hull_points bv (brics_grid ev) train = Inr []"
    by (rule hull_points_outside [OF cams])
  have a: "\<forall>s fs'. readBricsSceneInfo ev bv fs path num_pts start_t num_t init cvc = Inr (s, fs') \<longrightarrow>
          point_cloud s = Some \<lparr>points = [], colors = [], normals = []\<rparr>"
  proof (intro allI impI)
    fix s fs'
    assume "readBricsSceneInfo ev bv fs path num_pts start_t num_t init cvc = Inr (s, fs')"
    from readBricsSceneInfo_Inr [OF this] tr hp
    show "point_cloud s = Some \<lparr>points = [], colors = [], normals = []\<rparr>"
      by (auto simp: brics_subsample_Nil brics_colors_0)
  qed
  have b: "\<forall>test d' vs nn.
          readBrics ev bv path ''test'' start_t num_t = Inr (test, d')
          \<and> (if cvc then brics_video_cameras bv train d num_t else Inr []) = Inr vs
          \<and> getNerfppNorm train = Inr nn \<longrightarrow>
          (\<exists>fs'. readBricsSceneInfo ev bv fs path num_pts start_t num_t ''hull'' cvc =
             Inr (\<lparr>point_cloud = Some \<lparr>points = [], colors = [], normals = []\<rparr>,
                   train_cameras = train, test_cameras = test, video_cameras = vs,
                   nerf_normalization = nn, ply_path = tmp_ply_path bv,
                   maxtime = real_of_int num_t\<rparr>, fs'))"
  proof (intro allI impI)
    fix test d' vs nn
    assume h: "readBrics ev bv path ''test'' start_t num_t = Inr (test, d')
          \<and> (if cvc then brics_video_cameras bv train d num_t else Inr []) = Inr vs
          \<and> getNerfppNorm train = Inr nn"
    obtain fs' where st: "storePly (f4 ev) fs (tmp_ply_path bv) [] [] = Inr fs'"
      using storePly_Nil by blast
    have "readBricsSceneInfo ev bv fs path num_pts start_t num_t ''hull'' cvc =
       Inr (\<lparr>point_cloud = Some \<lparr>points = brics_subsample bv num_pts [],
                   colors = brics_colors bv (length (brics_subsample bv num_pts [])),
                   normals = map (\<lambda>p. (0, 0, 0)) (brics_subsample bv num_pts [])\<rparr>,
              train_cameras = train, test_cameras = test, video_cameras = vs,
              nerf_normalization = nn, ply_path = tmp_ply_path bv,
              maxtime = real_of_int num_t\<rparr>, fs')"
      using h st
      by (intro readBricsSceneInfo_returns [OF tr _ hp])
         (simp_all add: brics_subsample_Nil brics_colors_0)
    then show "\<exists>fs'. readBricsSceneInfo ev bv fs path num_pts start_t num_t ''hull'' cvc =
             Inr (\<lparr>point_cloud = Some \<lparr>points = [], colors = [], normals = []\<rparr>,
                   train_cameras = train, test_cameras = test, video_cameras = vs,
                   nerf_normalization = nn, ply_path = tmp_ply_path bv,
                   maxtime = real_of_int num_t\<rparr>, fs')"
      by (simp add: brics_subsample_Nil brics_colors_0)
  qed
  from hp a b show ?thesis by blast
qed











lemma ex_rig_outside: "\<not> in_image (ex_rig names) cam p"
  by (simp add: in_image_def ex_rig_def split: option.splits)

lemma ex_rig_train:
  "\<exists>r. readBrics (ex_env 0) (ex_rig ex_rig_names) ''rig'' ''train'' 0 1 = Inr r"
  by (simp add: readBrics_def ex_rig_def ex_rig_names_def ex_rig_frame_def ex_env_def
      brics_cam_id_def readBricsCamera_def Let_def mat_id_def)

lemma ex_rig_test:
  "\<exists>r. readBrics (ex_env 0) (ex_rig ex_rig_names) ''rig'' ''test'' 0 1 = Inr r"
  by (simp add: readBrics_def ex_rig_def ex_rig_names_def ex_rig_frame_def ex_env_def
      brics_cam_id_def readBricsCamera_def Let_def mat_id_def)

lemma ex_rig_norm:
  "\<exists>nn. and_then (readBrics (ex_env 0) (ex_rig ex_rig_names) ''rig'' ''train'' 0 1)
     (\<lambda>(train, d). getNerfppNorm train) = Inr nn"
  by (simp add: readBrics_def ex_rig_def ex_rig_names_def ex_rig_frame_def ex_env_def
      brics_cam_id_def readBricsCamera_def Let_def mat_id_def
      getNerfppNorm_def cam_centers_def cam_center_def getWorld2View2_def
      get_center_and_diag_def)

lemma ex_rig_video:
  "\<exists>vs. and_then (readBrics (ex_env 0) (ex_rig ex_rig_names) ''rig'' ''train'' 0 1)
     (\<lambda>(train, d). brics_video_cameras (ex_rig ex_rig_names) train d 1) = Inr vs"
  by (simp add: readBrics_def ex_rig_def ex_rig_names_def ex_rig_frame_def ex_env_def
      brics_cam_id_def readBricsCamera_def Let_def mat_id_def
      brics_video_cameras_def vis_cam_order_def enumerate_eq_zip)




lemma ex_small_rig:
  "\<exists>r. readBrics (ex_env 0) (ex_rig [''cam01'']) ''rig'' split' 0 1 = Inr r
         \<or> split' \<notin> {''train'', ''test'', ''org''}"
  by (simp add: readBrics_def ex_rig_def ex_rig_frame_def ex_env_def
      brics_cam_id_def readBricsCamera_def Let_def mat_id_def)

lemma ex_small_rig_norm:
  "\<exists>nn. and_then (readBrics (ex_env 0) (ex_rig [''cam01'']) ''rig'' ''train'' 0 1)
     (\<lambda>(train, d). getNerfppNorm train) = Inr nn"
  by (simp add: readBrics_def ex_rig_def ex_rig_frame_def ex_env_def
      brics_cam_id_def readBricsCamera_def Let_def mat_id_def
      getNerfppNorm_def cam_centers_def cam_center_def getWorld2View2_def
      get_center_and_diag_def)





subsection \<open>C1: the hold-out split of the reconstructed-scene reader\<close>

text \<open>
  C1 (as amended). Whenever the reconstructed-scene reader returns with evaluation mode
  on and hold-out stride \<open>N\<close>, the cameras sorted by image name are split by position:
  the test set is exactly the cameras at the positions divisible by \<open>N\<close>, the train set
  is the rest, the two are disjoint and together make up the full camera set. The test
  set has \<open>\<lceil>|cameras| / |N|\<rceil>\<close> cameras (positions \<open>0, N, 2N, \<dots>\<close> below the number of
  cameras), which is \<open>\<lfloor>|cameras| / N\<rfloor>\<close> only when \<open>N\<close> divides the number of cameras.
  With 16 cameras and stride 8 the test set is the cameras at positions 0 and 8 and the
  train set has the remaining 14.
\<close>

theorem colmap_holdout_split:
  assumes "readColmapSceneInfo ev fs path images True N = Inr (s, fs')"
  shows "\<exists>cam_infos. colmap_cam_infos ev path images = Inr cam_infos
     \<and> sorted (map image_name cam_infos)
     \<and> test_cameras s = map (nth cam_infos) (filter (\<lambda>i. N dvd int i) [0..<length cam_infos])
     \<and> train_cameras s = map (nth cam_infos) (filter (\<lambda>i. \<not> N dvd int i) [0..<length cam_infos])
     \<and> set (train_cameras s) \<inter> set (test_cameras s) = {}
     \<and> set (train_cameras s) \<union> set (test_cameras s) = set cam_infos
     \<and> int (length (test_cameras s)) = (int (length cam_infos) + \<bar>N\<bar> - 1) div \<bar>N\<bar>
     \<and> (length cam_infos = 16 \<and> N = 8 \<longrightarrow>
          test_cameras s = [cam_infos ! 0, cam_infos ! 8] \<and> length (train_cameras s) = 14)"
  using assms by (rule readColmapSceneInfo_split)

text \<open>A scene of 16 cameras, stride 8: two test cameras, fourteen train cameras.\<close>

theorem colmap_holdout_split_witness:
  "\<exists>s fs'. readColmapSceneInfo (ex_env 16) Map.empty ''scene'' None True 8 = Inr (s, fs')
     \<and> length (test_cameras s) = 2 \<and> length (train_cameras s) = 14
     \<and> set (train_cameras s) \<inter> set (test_cameras s) = {}"
proof -
  obtain s fs' where r: "readColmapSceneInfo (ex_env 16) Map.empty ''scene'' None True 8 = Inr (s, fs')"
    using ex_env_reader [of 16 Map.empty "''scene''"] by auto
  obtain cams where cams: "colmap_cam_infos (ex_env 16) ''scene'' None = Inr cams" "length cams = 16"
    using ex_env_cam_infos by blast
  from colmap_holdout_split [OF r] obtain ci where
    ci: "colmap_cam_infos (ex_env 16) ''scene'' None = Inr ci" and
    disj: "set (train_cameras s) \<inter> set (test_cameras s) = {}" and
    sc: "length ci = 16 \<and> (8::int) = 8 \<longrightarrow>
          test_cameras s = [ci ! 0, ci ! 8] \<and> length (train_cameras s) = 14"
    by blast
  from ci cams have "length ci = 16" by simp
  with sc have "length (test_cameras s) = 2" and "length (train_cameras s) = 14" by simp_all
  with r disj show ?thesis by blast
qed

text \<open>
  The claim as stated gives the test set \<open>\<lfloor>|cameras| / N\<rfloor>\<close> cameras. A scene of 9 cameras
  with stride 8 loads; its test set holds the cameras at positions 0 and 8, two cameras,
  while \<open>\<lfloor>9 / 8\<rfloor> = 1\<close>.
\<close>

theorem colmap_test_count_counterexample:
  "\<not> isl (readColmapSceneInfo (ex_env 9) Map.empty ''scene'' None True 8)
   \<and> length (test_cameras (fst (projr (readColmapSceneInfo (ex_env 9) Map.empty ''scene'' None True 8)))) = 2
   \<and> length (train_cameras (fst (projr (readColmapSceneInfo (ex_env 9) Map.empty ''scene'' None True 8)))) = 7
   \<and> (9::nat) div 8 = 1"
proof -
  obtain s fs' where r: "readColmapSceneInfo (ex_env 9) Map.empty ''scene'' None True 8 = Inr (s, fs')"
    using ex_env_reader [of 9 Map.empty "''scene''"] by auto
  obtain cams where cams: "colmap_cam_infos (ex_env 9) ''scene'' None = Inr cams" "length cams = 9"
    using ex_env_cam_infos by blast
  from readColmapSceneInfo_split [OF r] obtain ci where
    ci: "colmap_cam_infos (ex_env 9) ''scene'' None = Inr ci" and
    te: "test_cameras s = map (nth ci) (filter (\<lambda>i. (8::int) dvd int i) [0..<length ci])" and
    tr: "train_cameras s = map (nth ci) (filter (\<lambda>i. \<not> (8::int) dvd int i) [0..<length ci])"
    by blast
  from ci cams have len: "length ci = 9" by simp
  have "length (filter (\<lambda>i. (8::int) dvd int i) [0..<9]) = 2" by code_simp
  moreover have "length (filter (\<lambda>i. \<not> (8::int) dvd int i) [0..<9]) = 7" by code_simp
  ultimately show ?thesis
    by (simp add: r te tr len)
qed

subsection \<open>C3: positions and normals survive a store and a load\<close>

text \<open>
  C3. For positions and colours of the same number of rows, with coordinates in the
  finite range of 32-bit floats, storing a point cloud with \<open>storePly\<close> and loading it
  again with \<open>fetchPly\<close> succeeds and yields as many positions as were stored, each
  coordinate being the 32-bit float nearest to the original and hence equal to it within
  the tolerance of 32-bit floats (a relative error of at most \<open>2\<^sup>-\<^sup>2\<^sup>4\<close>, or an absolute error
  of at most \<open>2\<^sup>-\<^sup>1\<^sup>5\<^sup>0\<close> for the smallest numbers), and normals that are all zero.
\<close>

theorem ply_roundtrip_positions:
  assumes len: "length rgb = length xyz"
    and fin: "\<forall>(x, y, z) \<in> set xyz. f32_finite x \<and> f32_finite y \<and> f32_finite z"
  shows "\<exists>fs' pcd. storePly binary32 fs path xyz rgb = Inr fs' \<and> fetchPly fs' path = Inr pcd
     \<and> length (points pcd) = length xyz
     \<and> (\<forall>i < length xyz.
           (case (xyz ! i, points pcd ! i) of ((x, y, z), (x', y', z')) \<Rightarrow>
              x' = binary32 x \<and> y' = binary32 y \<and> z' = binary32 z
              \<and> \<bar>x' - x\<bar> \<le> max (\<bar>x\<bar> / 2 ^ 24) (1 / 2 ^ 150)
              \<and> \<bar>y' - y\<bar> \<le> max (\<bar>y\<bar> / 2 ^ 24) (1 / 2 ^ 150)
              \<and> \<bar>z' - z\<bar> \<le> max (\<bar>z\<bar> / 2 ^ 24) (1 / 2 ^ 150)))
     \<and> normals pcd = map (\<lambda>p. (0, 0, 0)) xyz"
proof -
  have zero: "binary32 0 = 0" by (simp add: binary32_def)
  from fetchPly_storePly [OF len, of binary32 fs path] obtain fs' where
    st: "storePly binary32 fs path xyz rgb = Inr fs'" and
    ft: "fetchPly fs' path =
       Inr \<lparr>points = map (\<lambda>(x, y, z). (binary32 x, binary32 y, binary32 z)) xyz,
            colors = map (\<lambda>(r, g, b). (binary32 r / 255, binary32 g / 255, binary32 b / 255)) rgb,
            normals = map (\<lambda>p. (binary32 0, binary32 0, binary32 0)) xyz\<rparr>"
    by blast
  have "\<forall>i < length xyz.
           (case (xyz ! i, map (\<lambda>(x, y, z). (binary32 x, binary32 y, binary32 z)) xyz ! i) of
              ((x, y, z), (x', y', z')) \<Rightarrow>
              x' = binary32 x \<and> y' = binary32 y \<and> z' = binary32 z
              \<and> \<bar>x' - x\<bar> \<le> max (\<bar>x\<bar> / 2 ^ 24) (1 / 2 ^ 150)
              \<and> \<bar>y' - y\<bar> \<le> max (\<bar>y\<bar> / 2 ^ 24) (1 / 2 ^ 150)
              \<and> \<bar>z' - z\<bar> \<le> max (\<bar>z\<bar> / 2 ^ 24) (1 / 2 ^ 150))"
    using binary32_error by (auto simp: case_prod_unfold simp del: max.bounded_iff)
  with st ft zero show ?thesis by simp
qed

text \<open>
  One point with a coordinate that is not a 32-bit float: one third comes back as
  \<open>11184811 / 2\<^sup>2\<^sup>5\<close>, the other two coordinates as they are, and the normal is zero.
\<close>

theorem ply_roundtrip_positions_witness:
  "\<exists>fs' pcd. storePly binary32 Map.empty ''cloud.ply'' [(1 / 3, 1, 2)] [(255, 0, 51)] = Inr fs'
     \<and> fetchPly fs' ''cloud.ply'' = Inr pcd
     \<and> points pcd = [(11184811 / 33554432, 1, 2)]
     \<and> normals pcd = [(0, 0, 0)]"
proof -
  have len: "length [(255::real, 0::real, 51::real)] = length [(1 / 3 :: real, 1::real, 2::real)]"
    by simp
  have fin: "\<forall>(x, y, z) \<in> set [(1 / 3 :: real, 1::real, 2::real)].
      f32_finite x \<and> f32_finite y \<and> f32_finite z"
    by (simp add: f32_finite_def)
  from ply_roundtrip_positions [OF len fin, of Map.empty "''cloud.ply''"]
  obtain fs' pcd where
    st: "storePly binary32 Map.empty ''cloud.ply'' [(1 / 3, 1, 2)] [(255, 0, 51)] = Inr fs'" and
    ft: "fetchPly fs' ''cloud.ply'' = Inr pcd" and
    n: "length (points pcd) = length [(1 / 3 :: real, 1::real, 2::real)]" and
    pts: "\<forall>i < length [(1 / 3 :: real, 1::real, 2::real)].
           (case ([(1 / 3, 1, 2)] ! i, points pcd ! i) of ((x, y, z), (x', y', z')) \<Rightarrow>
              x' = binary32 x \<and> y' = binary32 y \<and> z' = binary32 z
              \<and> \<bar>x' - x\<bar> \<le> max (\<bar>x\<bar> / 2 ^ 24) (1 / 2 ^ 150)
              \<and> \<bar>y' - y\<bar> \<le> max (\<bar>y\<bar> / 2 ^ 24) (1 / 2 ^ 150)
              \<and> \<bar>z' - z\<bar> \<le> max (\<bar>z\<bar> / 2 ^ 24) (1 / 2 ^ 150))" and
    nrm: "normals pcd = map (\<lambda>p. (0, 0, 0)) [(1 / 3 :: real, 1::real, 2::real)]"
    by blast
  from n obtain p where p: "points pcd = [p]"
    by (cases "points pcd") auto
  from pts [rule_format, of 0] have "p = (binary32 (1 / 3), binary32 1, binary32 2)"
    by (cases p) (simp add: p)
  then have "points pcd = [(11184811 / 33554432, 1, 2)]"
    by (simp add: p binary32_third binary32_one binary32_two)
  moreover from nrm have "normals pcd = [(0, 0, 0)]" by simp
  ultimately show ?thesis using st ft by blast
qed

subsection \<open>C10: colours are stored as given and divided by 255 on load\<close>

text \<open>
  C10. For positions and colours \<open>rgb\<close> of the same number of rows, \<open>storePly\<close> writes the
  colour values as they are (as 32-bit floats) and \<open>fetchPly\<close> divides the stored red,
  green and blue by 255: the colours of the loaded cloud are the stored values over 255,
  which is \<open>rgb / 255\<close> wherever the values are 32-bit floats. The loaded colours are some
  intended colours \<open>cs\<close> exactly when the values stored were \<open>255 \<sqdot> cs\<close>: colours come
  back unchanged only if the caller scales them to the range 0 to 255 before storing.
\<close>

theorem ply_roundtrip_colors:
  assumes len: "length rgb = length xyz"
  shows "\<exists>fs' pcd. storePly rnd fs path xyz rgb = Inr fs' \<and> fetchPly fs' path = Inr pcd
     \<and> colors pcd = map (\<lambda>(r, g, b). (rnd r / 255, rnd g / 255, rnd b / 255)) rgb
     \<and> ((\<forall>c \<in> set rgb. case c of (r, g, b) \<Rightarrow> rnd r = r \<and> rnd g = g \<and> rnd b = b) \<longrightarrow>
          colors pcd = map (\<lambda>(r, g, b). (r / 255, g / 255, b / 255)) rgb)
     \<and> (colors pcd = cs \<longleftrightarrow>
          map (\<lambda>(r, g, b). (rnd r, rnd g, rnd b)) rgb = map (vscale 255) cs)"
proof -
  from fetchPly_storePly [OF len, of rnd fs path] obtain fs' where
    st: "storePly rnd fs path xyz rgb = Inr fs'" and
    ft: "fetchPly fs' path =
       Inr \<lparr>points = map (\<lambda>(x, y, z). (rnd x, rnd y, rnd z)) xyz,
            colors = map (\<lambda>(r, g, b). (rnd r / 255, rnd g / 255, rnd b / 255)) rgb,
            normals = map (\<lambda>p. (rnd 0, rnd 0, rnd 0)) xyz\<rparr>"
    by blast
  let ?cols = "map (\<lambda>(r, g, b). (rnd r / 255, rnd g / 255, rnd b / 255)) rgb"
  have exact: "(\<forall>c \<in> set rgb. case c of (r, g, b) \<Rightarrow> rnd r = r \<and> rnd g = g \<and> rnd b = b) \<longrightarrow>
          ?cols = map (\<lambda>(r, g, b). (r / 255, g / 255, b / 255)) rgb"
    by (auto simp: case_prod_unfold)
  have scaled: "?cols = cs \<longleftrightarrow>
          map (\<lambda>(r, g, b). (rnd r, rnd g, rnd b)) rgb = map (vscale 255) cs"
  proof
    assume "?cols = cs"
    then have "map (vscale 255) cs = map (vscale 255) ?cols" by simp
    also have "\<dots> = map (\<lambda>(r, g, b). (rnd r, rnd g, rnd b)) rgb"
      by (auto simp: case_prod_unfold)
    finally show "map (\<lambda>(r, g, b). (rnd r, rnd g, rnd b)) rgb = map (vscale 255) cs" by simp
  next
    assume a: "map (\<lambda>(r, g, b). (rnd r, rnd g, rnd b)) rgb = map (vscale 255) cs"
    have "?cols = map (vscale (1 / 255)) (map (\<lambda>(r, g, b). (rnd r, rnd g, rnd b)) rgb)"
      by (auto simp: case_prod_unfold)
    also have "\<dots> = map (vscale (1 / 255)) (map (vscale 255) cs)" by (simp only: a)
    also have "\<dots> = cs"
      by (induction cs) auto
    finally show "?cols = cs" .
  qed
  from st ft exact scaled show ?thesis by simp
qed

text \<open>
  The colour \<open>(1, 0, 1/5)\<close>, scaled to \<open>(255, 0, 51)\<close> before storing, comes back as
  \<open>(1, 0, 1/5)\<close>.
\<close>

theorem ply_roundtrip_colors_witness:
  "\<exists>fs' pcd. storePly ex_f4 Map.empty ''cloud.ply'' [(1 / 3, 1, 2)] [(255, 0, 51)] = Inr fs'
     \<and> fetchPly fs' ''cloud.ply'' = Inr pcd
     \<and> colors pcd = [(1, 0, 1 / 5)]"
proof -
  have len: "length [(255::real, 0::real, 51::real)] = length [(1 / 3 :: real, 1::real, 2::real)]"
    by simp
  from ply_roundtrip_colors [OF len, of ex_f4 Map.empty "''cloud.ply''"]
  obtain fs' pcd where
    st: "storePly ex_f4 Map.empty ''cloud.ply'' [(1 / 3, 1, 2)] [(255, 0, 51)] = Inr fs'" and
    ft: "fetchPly fs' ''cloud.ply'' = Inr pcd" and
    cols: "colors pcd =
      map (\<lambda>(r, g, b). (ex_f4 r / 255, ex_f4 g / 255, ex_f4 b / 255)) [(255, 0, 51)]"
    by blast
  from cols have "colors pcd = [(1, 0, 1 / 5)]"
    by (simp add: ex_f4_def)
  then show ?thesis using st ft by blast
qed

subsection \<open>C7: a vertex file of another schema\<close>

text \<open>
  C7 (as amended). Loading a persisted point-cloud file whose schema does not match the
  expected vertex fields fails: \<open>fetchPly\<close> raises (the \<open>KeyError\<close> or \<open>ValueError\<close> of the
  vertex-file library; the sources define no error class of their own for it). The
  reconstructed-scene reader does not pass that failure on: it catches it, and whenever
  it returns, it returns a scene whose point cloud is absent, the file left as it was.
\<close>

theorem colmap_schema_mismatch:
  assumes "fs (path_join path ''sparse/0/points3D.ply'') = Some (PlyFile els)"
    and "\<not> has_vertex_fields els"
  shows "(fetchPly fs (path_join path ''sparse/0/points3D.ply'') = Inl KeyError
          \<or> fetchPly fs (path_join path ''sparse/0/points3D.ply'') = Inl ValueError)
     \<and> (\<forall>s fs'. readColmapSceneInfo ev fs path images eval N = Inr (s, fs') \<longrightarrow>
           point_cloud s = None \<and> fs' = fs)"
  using fetchPly_schema_mismatch [of fs "path_join path ''sparse/0/points3D.ply''" els]
    readColmapSceneInfo_bad_ply [of ev fs path images eval N _ _ els] assms
  by blast

text \<open>A scene of 9 cameras whose point-cloud file holds faces and no vertices.\<close>

theorem colmap_schema_mismatch_witness:
  "fetchPly ex_fs_no_vertex ''scene/sparse/0/points3D.ply'' = Inl KeyError
   \<and> \<not> isl (readColmapSceneInfo (ex_env 9) ex_fs_no_vertex ''scene'' None True 8)
   \<and> point_cloud (fst (projr (readColmapSceneInfo (ex_env 9) ex_fs_no_vertex ''scene'' None True 8)))
       = None"
proof -
  let ?els = "[\<lparr>el_name = ''face'', columns = [(''vertex_indices'', [0, 1, 2])]\<rparr>]"
  have p: "path_join ''scene'' ''sparse/0/points3D.ply'' = ''scene/sparse/0/points3D.ply''"
    by (simp add: path_join_def)
  have f: "ex_fs_no_vertex (path_join ''scene'' ''sparse/0/points3D.ply'') = Some (PlyFile ?els)"
    by (simp add: p ex_fs_no_vertex_def)
  have b: "\<not> has_vertex_fields ?els"
    by (simp add: has_vertex_fields_def)
  obtain s fs' where
    r: "readColmapSceneInfo (ex_env 9) ex_fs_no_vertex ''scene'' None True 8 = Inr (s, fs')"
    using ex_env_reader [of 9 ex_fs_no_vertex "''scene''"] by auto
  from colmap_schema_mismatch [of ex_fs_no_vertex "''scene''" ?els "ex_env 9" None True 8] f b r
  have "point_cloud s = None" by blast
  moreover have "fetchPly ex_fs_no_vertex ''scene/sparse/0/points3D.ply'' = Inl KeyError"
    by (simp add: fetchPly_def PlyData_read_def ply_element_def ex_fs_no_vertex_def)
  ultimately show ?thesis by (simp add: r)
qed

text \<open>
  The claim as stated has the failure reach the caller of the reader, with no scene
  returned. On a scene of 9 cameras whose point-cloud file has vertices without colours,
  \<open>fetchPly\<close> raises \<open>ValueError\<close>, and the reader returns a scene with no point cloud.
\<close>

theorem colmap_schema_mismatch_counterexample:
  "fetchPly ex_fs_no_colors ''scene/sparse/0/points3D.ply'' = Inl ValueError
   \<and> \<not> isl (readColmapSceneInfo (ex_env 9) ex_fs_no_colors ''scene'' None True 8)
   \<and> point_cloud (fst (projr (readColmapSceneInfo (ex_env 9) ex_fs_no_colors ''scene'' None True 8)))
       = None"
proof -
  let ?els = "[\<lparr>el_name = ''vertex'',
                  columns = [(''x'', [0, 1]), (''y'', [0, 2]), (''z'', [0::real, 3])]\<rparr>]"
  have p: "path_join ''scene'' ''sparse/0/points3D.ply'' = ''scene/sparse/0/points3D.ply''"
    by (simp add: path_join_def)
  have f: "ex_fs_no_colors (path_join ''scene'' ''sparse/0/points3D.ply'') = Some (PlyFile ?els)"
    by (simp add: p ex_fs_no_colors_def)
  have b: "\<not> has_vertex_fields ?els"
    by (simp add: has_vertex_fields_def)
  obtain s fs' where
    r: "readColmapSceneInfo (ex_env 9) ex_fs_no_colors ''scene'' None True 8 = Inr (s, fs')"
    using ex_env_reader [of 9 ex_fs_no_colors "''scene''"] by auto
  from readColmapSceneInfo_bad_ply [of "ex_env 9" ex_fs_no_colors "''scene''" None True 8 s fs' ?els]
    r f b
  have "point_cloud s = None" by blast
  moreover have "fetchPly ex_fs_no_colors ''scene/sparse/0/points3D.ply'' = Inl ValueError"
    by (simp add: fetchPly_def PlyData_read_def ply_element_def ex_fs_no_colors_def
        columns3_def ply_column_def vstack_T_def)
  ultimately show ?thesis by (simp add: r)
qed

subsection \<open>C2: the time normalisation of the synthetic-transforms reader\<close>

text \<open>
  C2 (as amended). For every synthetic-transforms input whose frames all declare a time
  and whose largest raw time is positive, the mapper is defined on exactly the frame
  times of the train and test files and sends each to itself over the largest raw time;
  so the largest normalised time over train and test is 1 and the smallest is
  \<open>min(raw_times) / max(raw_times)\<close>.
\<close>

theorem read_timeline_normalised:
  assumes tr: "js (path_join path ''transforms_train.json'') = Inr train_json"
    and te: "js (path_join path ''transforms_test.json'') = Inr test_json"
    and raw: "map frame_time (frames train_json @ frames test_json) = map Some raw"
    and ne: "raw \<noteq> []" and pos: "0 < Max (set raw)"
  shows "\<exists>mapper. read_timeline js path = Inr (mapper, Max (set raw))
     \<and> dom mapper = set raw
     \<and> (\<forall>t \<in> set raw. mapper t = Some (t / Max (set raw)))
     \<and> Max (ran mapper) = 1
     \<and> Min (ran mapper) = Min (set raw) / Max (set raw)"
proof -
  let ?mx = "Max (set raw)"
  let ?m = "\<lambda>k. if k \<in> set raw then Some (k / ?mx) else None"
  have r: "read_timeline js path = Inr (?m, ?mx)"
    using read_timeline_returns [OF tr te raw ne] pos by simp
  have mono: "mono (\<lambda>t. t / ?mx)"
    using pos by (auto intro!: monoI divide_right_mono)
  have fin: "finite (set raw)" "set raw \<noteq> {}" using ne by simp_all
  have "Max (ran ?m) = Max ((\<lambda>t. t / ?mx) ` set raw)" by (simp only: ran_if_Some)
  also have "\<dots> = ?mx / ?mx" by (rule mono_Max_commute [OF mono fin, symmetric])
  also have "\<dots> = 1" using pos by simp
  finally have mx: "Max (ran ?m) = 1" .
  have "Min (ran ?m) = Min ((\<lambda>t. t / ?mx) ` set raw)" by (simp only: ran_if_Some)
  also have "\<dots> = Min (set raw) / ?mx" by (rule mono_Min_commute [OF mono fin, symmetric])
  finally have mn: "Min (ran ?m) = Min (set raw) / ?mx" .
  have "dom ?m = set raw" by (auto simp: dom_def)
  with r mx mn show ?thesis by auto
qed

text \<open>
  Train times \<open>0, 1/2, 1\<close> and test times \<open>1/4, 3/4\<close>: the mapper sends 1 to 1 and 0 to 0.
\<close>

theorem read_timeline_normalised_witness:
  "\<exists>mapper. read_timeline (ex_js [0, 1 / 2, 1] [1 / 4, 3 / 4]) ''scene'' = Inr (mapper, 1)
     \<and> mapper 1 = Some 1 \<and> mapper 0 = Some 0
     \<and> Max (ran mapper) = 1 \<and> Min (ran mapper) = 0"
proof -
  let ?raw = "[0, 1 / 2, 1, 1 / 4, 3 / 4 :: real]"
  let ?js = "ex_js [0, 1 / 2, 1] [1 / 4, 3 / 4]"
  have tr: "?js (path_join ''scene'' ''transforms_train.json'')
      = Inr \<lparr>camera_angle_x = Some 1, frames = map ex_frame [0, 1 / 2, 1]\<rparr>"
    by (simp add: ex_js_def path_join_def)
  have te: "?js (path_join ''scene'' ''transforms_test.json'')
      = Inr \<lparr>camera_angle_x = Some 1, frames = map ex_frame [1 / 4, 3 / 4]\<rparr>"
    by (simp add: ex_js_def path_join_def)
  have raw: "map frame_time
       (frames \<lparr>camera_angle_x = Some 1, frames = map ex_frame [0, 1 / 2, 1]\<rparr>
        @ frames \<lparr>camera_angle_x = Some 1, frames = map ex_frame [1 / 4, 3 / 4]\<rparr>)
      = map Some ?raw"
    by (simp add: ex_frame_def)
  have ne: "?raw \<noteq> []" by simp
  have mx: "Max (set ?raw) = 1" by simp
  have mn: "Min (set ?raw) = 0" by simp
  have pos: "0 < Max (set ?raw)" by (simp only: mx)
  from read_timeline_normalised [OF tr te raw ne pos]
  obtain mapper where
    r: "read_timeline ?js ''scene'' = Inr (mapper, Max (set ?raw))" and
    v: "\<forall>t \<in> set ?raw. mapper t = Some (t / Max (set ?raw))" and
    a: "Max (ran mapper) = 1" and b: "Min (ran mapper) = Min (set ?raw) / Max (set ?raw)"
    by blast
  from v have "mapper 1 = Some 1" and "mapper 0 = Some 0"
    unfolding mx by simp_all
  with r a b show ?thesis
    unfolding mx mn by simp
qed

text \<open>
  The claim as stated speaks of every input. When all frames are at time 0 the division
  by the largest time raises and there is no mapper; when the times are \<open>-2\<close> and \<open>-1\<close> the
  largest raw time is \<open>-1\<close> and the frame at \<open>-2\<close> gets the normalised time 2, above 1.
\<close>

theorem read_timeline_counterexample:
  "read_timeline (ex_js [0, 0] [0]) ''scene'' = Inl ZeroDivisionError
   \<and> \<not> isl (read_timeline (ex_js [- 2] [- 1]) ''scene'')
   \<and> snd (projr (read_timeline (ex_js [- 2] [- 1]) ''scene'')) = - 1
   \<and> fst (projr (read_timeline (ex_js [- 2] [- 1]) ''scene'')) (- 2) = Some 2"
  by (simp add: read_timeline_def ex_js_def ex_frame_def path_join_def frame_times_def Let_def)

subsection \<open>C4: the scene radius and its invariance under rotation\<close>

text \<open>
  C4. Whenever scene normalisation returns (it raises on an empty camera set, or on a
  singular world-to-camera transform), it has taken for every camera the translation
  column of the inverse world-to-camera transform, which is the point \<open>(x, y, z)\<close> that the
  transform \<open>p \<mapsto> R\<^sup>T p + T\<close> sends to the camera origin; the translation returned is minus
  the centroid of these centres (the sum of each coordinate over the number of cameras),
  and the radius is 1.1 times the largest Euclidean distance from the centroid to a
  centre. For any cameras whose centres are those centres rotated about the centroid,
  normalisation returns the same radius.
\<close>

theorem getNerfppNorm_radius:
  assumes "getNerfppNorm cams = Inr nn"
  shows "\<exists>cs. cam_centers cams = Inr cs \<and> cs \<noteq> [] \<and> length cs = length cams
     \<and> (\<forall>i < length cams.
           (\<exists>C2W. linalg_inv (getWorld2View2 (R (cams ! i)) (T (cams ! i))) = Inr C2W
                  \<and> cs ! i = snd C2W)
           \<and> (case (R (cams ! i), T (cams ! i), cs ! i) of
                (((a, b, c), (d, e, f), (g, h, k)), (t1, t2, t3), (x, y, z)) \<Rightarrow>
                  a * x + d * y + g * z + t1 = 0 \<and> b * x + e * y + h * z + t2 = 0
                  \<and> c * x + f * y + k * z + t3 = 0))
     \<and> (let n = real (length cs);
             mx = (\<Sum>p\<leftarrow>cs. fst p) / n;
             my = (\<Sum>p\<leftarrow>cs. fst (snd p)) / n;
             mz = (\<Sum>p\<leftarrow>cs. snd (snd p)) / n
         in translate nn = (- mx, - my, - mz)
            \<and> radius nn
                = Max ((\<lambda>(x, y, z). sqrt ((x - mx)\<^sup>2 + (y - my)\<^sup>2 + (z - mz)\<^sup>2)) ` set cs) * 1.1
            \<and> (\<forall>Q cams'. is_rotation Q
                   \<and> cam_centers cams' = Inr (map (rotate_about Q (mx, my, mz)) cs) \<longrightarrow>
                 (\<exists>nn'. getNerfppNorm cams' = Inr nn' \<and> radius nn' = radius nn)))"
  using assms by (rule getNerfppNorm_explicit)

text \<open>
  Three cameras, one of them turned, at \<open>(1, 0, 0)\<close>, \<open>(-1, 0, 0)\<close> and \<open>(0, 2, 0)\<close>: the
  centroid is \<open>(0, 2/3, 0)\<close>, the squared distances are \<open>13/9\<close>, \<open>13/9\<close> and \<open>16/9\<close>, and the
  radius is \<open>4/3\<close> times \<open>1.1\<close>, that is \<open>22/15\<close>. Three cameras at these centres a
  quarter turn about the centroid
  further have the same radius.
\<close>

theorem getNerfppNorm_radius_witness:
  "\<exists>nn nn'. getNerfppNorm [ex_cam_at (1, 0, 0), ex_cam_turned (- 1, 0, 0), ex_cam_at (0, 2, 0)]
          = Inr nn
     \<and> getNerfppNorm [ex_cam_turned (2 / 3, 5 / 3, 0), ex_cam_at (2 / 3, - 1 / 3, 0),
          ex_cam_turned (- 4 / 3, 2 / 3, 0)] = Inr nn'
     \<and> translate nn = (0, - 2 / 3, 0)
     \<and> radius nn = 22 / 15
     \<and> radius nn' = 22 / 15"
proof -
  let ?cams = "[ex_cam_at (1, 0, 0), ex_cam_turned (- 1, 0, 0), ex_cam_at (0, 2, 0)]"
  let ?cams' = "[ex_cam_turned (2 / 3, 5 / 3, 0), ex_cam_at (2 / 3, - 1 / 3, 0),
          ex_cam_turned (- 4 / 3, 2 / 3, 0)]"
  let ?cs = "[(1, 0, 0), (- 1, 0, 0), (0, 2, 0)] :: vec3 list"
  let ?cs' = "[(2 / 3, 5 / 3, 0), (2 / 3, - 1 / 3, 0), (- 4 / 3, 2 / 3, 0)] :: vec3 list"
  have c: "cam_centers ?cams = Inr ?cs"
    by (simp add: cam_centers_def ex_cam_at_center ex_cam_turned_center)
  have c': "cam_centers ?cams' = Inr ?cs'"
    by (simp add: cam_centers_def ex_cam_at_center ex_cam_turned_center)
  have rot: "is_rotation ex_quarter_turn"
    by (simp add: is_rotation_def ex_quarter_turn_def mat_id_def)
  have moved: "map (rotate_about ex_quarter_turn (0, 2 / 3, 0)) ?cs = ?cs'"
    by (simp add: rotate_about_def ex_quarter_turn_def)
  have "\<exists>nn. getNerfppNorm ?cams = Inr nn"
    by (simp add: getNerfppNorm_def c get_center_and_diag_def Let_def)
  then obtain nn where nn: "getNerfppNorm ?cams = Inr nn" ..
  from getNerfppNorm_radius [OF nn] obtain cs where
    cs: "cam_centers ?cams = Inr cs" and
    rest: "let n = real (length cs);
             mx = (\<Sum>p\<leftarrow>cs. fst p) / n;
             my = (\<Sum>p\<leftarrow>cs. fst (snd p)) / n;
             mz = (\<Sum>p\<leftarrow>cs. snd (snd p)) / n
         in translate nn = (- mx, - my, - mz)
            \<and> radius nn
                = Max ((\<lambda>(x, y, z). sqrt ((x - mx)\<^sup>2 + (y - my)\<^sup>2 + (z - mz)\<^sup>2)) ` set cs) * 1.1
            \<and> (\<forall>Q cams'. is_rotation Q
                   \<and> cam_centers cams' = Inr (map (rotate_about Q (mx, my, mz)) cs) \<longrightarrow>
                 (\<exists>nn'. getNerfppNorm cams' = Inr nn' \<and> radius nn' = radius nn))"
    by blast
  from cs c have eq: "cs = ?cs" by simp
  have s1: "(\<Sum>p\<leftarrow>?cs. fst p) / real (length ?cs) = 0"
    and s2: "(\<Sum>p\<leftarrow>?cs. fst (snd p)) / real (length ?cs) = 2 / 3"
    and s3: "(\<Sum>p\<leftarrow>?cs. snd (snd p)) / real (length ?cs) = 0"
    by simp_all
  note rest' = rest [unfolded eq Let_def s1 s2 s3]
  from rest' have tr: "translate nn = (0, - 2 / 3, 0)" by simp
  have mx: "Max ((\<lambda>(x, y, z). sqrt ((x - 0)\<^sup>2 + (y - 2 / 3)\<^sup>2 + (z - 0)\<^sup>2)) ` set ?cs) = 4 / 3"
    using sqrt_13_9 by (simp add: power2_eq_square sqrt_16_9 max_def)
  from rest' have "radius nn = 4 / 3 * 1.1" by (simp only: mx)
  then have r: "radius nn = 22 / 15" by simp
  from rest' have inv: "\<forall>Q cams'. is_rotation Q
                   \<and> cam_centers cams' = Inr (map (rotate_about Q (0, 2 / 3, 0)) ?cs) \<longrightarrow>
                 (\<exists>nn'. getNerfppNorm cams' = Inr nn' \<and> radius nn' = radius nn)"
    by blast
  from inv rot c' [folded moved] obtain nn' where
    "getNerfppNorm ?cams' = Inr nn'" and "radius nn' = radius nn"
    by blast
  with nn tr r show ?thesis by auto
qed

subsection \<open>C5: the threshold of the hull carving\<close>



subsection \<open>C6: a grid that no camera frames\<close>

text \<open>
  C6 (as amended). For any multi-rig input whose carving grid projects outside the
  image bounds of every first-frame camera, no grid point survives the carving; the
  reader raises no error on that account: whenever it returns, its scene has a point
  cloud with no points, and it does return (with the empty cloud stored) as soon as the
  test split is read, the preview cameras are built, and the scene normalisation of the
  train cameras succeeds.
\<close>

theorem brics_grid_outside_frustums:
  assumes "readBrics ev bv path ''train'' start_t num_t = Inr (train, d)"
    and "\<forall>cam \<in> set (first_frame_cameras train). \<forall>p \<in> set (brics_grid ev). \<not> in_image bv cam p"
  shows "hull_points bv (brics_grid ev) train = Inr []
     \<and> (\<forall>s fs'. readBricsSceneInfo ev bv fs path num_pts start_t num_t init cvc = Inr (s, fs') \<longrightarrow>
          point_cloud s = Some \<lparr>points = [], colors = [], normals = []\<rparr>)
     \<and> (\<forall>test d' vs nn.
          readBrics ev bv path ''test'' start_t num_t = Inr (test, d')
          \<and> (if cvc then brics_video_cameras bv train d num_t else Inr []) = Inr vs
          \<and> getNerfppNorm train = Inr nn \<longrightarrow>
          (\<exists>fs'. readBricsSceneInfo ev bv fs path num_pts start_t num_t ''hull'' cvc =
             Inr (\<lparr>point_cloud = Some \<lparr>points = [], colors = [], normals = []\<rparr>,
                   train_cameras = train, test_cameras = test, video_cameras = vs,
                   nerf_normalization = nn, ply_path = tmp_ply_path bv,
                   maxtime = real_of_int num_t\<rparr>, fs')))"
  using assms by (rule readBricsSceneInfo_outside)

text \<open>
  A rig of one camera whose grid projects outside the image, read without preview
  cameras: the scene returned has a point cloud without points.
\<close>

theorem brics_grid_outside_frustums_witness:
  "\<not> isl (readBricsSceneInfo (ex_env 0) (ex_rig [''cam01'']) Map.empty ''rig'' 200000 0 1
            ''hull'' False)
   \<and> point_cloud (fst (projr (readBricsSceneInfo (ex_env 0) (ex_rig [''cam01'']) Map.empty
        ''rig'' 200000 0 1 ''hull'' False)))
       = Some \<lparr>points = [], colors = [], normals = []\<rparr>"
proof -
  let ?bv = "ex_rig [''cam01'']"
  obtain train d where tr: "readBrics (ex_env 0) ?bv ''rig'' ''train'' 0 1 = Inr (train, d)"
    using ex_small_rig [of "''train''"] by auto
  obtain test d' where te: "readBrics (ex_env 0) ?bv ''rig'' ''test'' 0 1 = Inr (test, d')"
    using ex_small_rig [of "''test''"] by auto
  obtain nn where nn: "getNerfppNorm train = Inr nn"
    using ex_small_rig_norm by (auto simp: tr)
  have out: "\<forall>cam \<in> set (first_frame_cameras train). \<forall>p \<in> set (brics_grid (ex_env 0)).
                \<not> in_image ?bv cam p"
    by (simp add: ex_rig_outside)
  from brics_grid_outside_frustums [OF tr out, of Map.empty 200000 "''hull''" False] te nn
  obtain fs' where
    "readBricsSceneInfo (ex_env 0) ?bv Map.empty ''rig'' 200000 0 1 ''hull'' False =
       Inr (\<lparr>point_cloud = Some \<lparr>points = [], colors = [], normals = []\<rparr>,
             train_cameras = train, test_cameras = test, video_cameras = [],
             nerf_normalization = nn, ply_path = tmp_ply_path ?bv,
             maxtime = real_of_int 1\<rparr>, fs')"
    by auto
  then show ?thesis by simp
qed

text \<open>
  The claim as stated has the reader raise \<open>InvalidGeometryError\<close>. A rig of the eleven
  preview cameras whose grid projects outside every image, read with the default
  options, loads: the reader returns a scene whose point cloud has no points.
\<close>

theorem brics_empty_cloud_counterexample:
  "\<not> isl (readBricsSceneInfo (ex_env 0) (ex_rig ex_rig_names) Map.empty ''rig'' 200000 0 1
            ''hull'' True)
   \<and> point_cloud (fst (projr (readBricsSceneInfo (ex_env 0) (ex_rig ex_rig_names) Map.empty
        ''rig'' 200000 0 1 ''hull'' True)))
       = Some \<lparr>points = [], colors = [], normals = []\<rparr>"
proof -
  let ?bv = "ex_rig ex_rig_names"
  obtain train d where tr: "readBrics (ex_env 0) ?bv ''rig'' ''train'' 0 1 = Inr (train, d)"
    using ex_rig_train by auto
  obtain test d' where te: "readBrics (ex_env 0) ?bv ''rig'' ''test'' 0 1 = Inr (test, d')"
    using ex_rig_test by auto
  obtain nn where nn: "getNerfppNorm train = Inr nn"
    using ex_rig_norm by (auto simp: tr)
  obtain vs where vs: "brics_video_cameras ?bv train d 1 = Inr vs"
    using ex_rig_video by (auto simp: tr)
  have out: "\<forall>cam \<in> set (first_frame_cameras train). \<forall>p \<in> set (brics_grid (ex_env 0)).
                \<not> in_image ?bv cam p"
    by (simp add: ex_rig_outside)
  from readBricsSceneInfo_outside [OF tr out, of Map.empty 200000 "''hull''" True] te nn vs
  obtain fs' where
    "readBricsSceneInfo (ex_env 0) ?bv Map.empty ''rig'' 200000 0 1 ''hull'' True =
       Inr (\<lparr>point_cloud = Some \<lparr>points = [], colors = [], normals = []\<rparr>,
             train_cameras = train, test_cameras = test, video_cameras = vs,
             nerf_normalization = nn, ply_path = tmp_ply_path ?bv,
             maxtime = real_of_int 1\<rparr>, fs')"
    by auto
  then show ?thesis by simp
qed

subsection \<open>C8: the time of a camera\<close>




subsection \<open>C9: the video cameras of a scene\<close>




end
